theory Spec2Isabelle
  imports Complex_Main "HOL-Library.Word" "HOL-Library.Sublist" "HOL-Library.Multiset"
    "HOL-Library.Product_Lexorder"
begin

unbundle bit_operations_syntax

section \<open>ThreadPulse Daily: the daily game engine\<close>

text \<open>
  A shallow embedding of \<^verbatim>\<open>core/dailyGameEngine.ts\<close> and of the session hook
  \<^verbatim>\<open>hooks/useGameStore.ts\<close>.

  Conventions of the embedding.
  \<^item> A JavaScript number that holds an integer is an \<^typ>\<open>int\<close>. The 32-bit operators
    (\<^verbatim>\<open>^\<close>, \<^verbatim>\<open>|\<close>, \<^verbatim>\<open>>>>\<close>, \<^verbatim>\<open>Math.imul\<close>) convert their operands with ToInt32 or
    ToUint32 and return a signed or an unsigned 32-bit value, as ECMAScript defines them.
  \<^item> A JavaScript string that holds free text is a list of UTF-16 code units
    (\<^typ>\<open>16 word list\<close>); \<^verbatim>\<open>length\<close> counts code units. Day keys and messages, which
    the code itself writes in ASCII, are of type \<^typ>\<open>string\<close>.
  \<^item> A \<^verbatim>\<open>Date\<close> is its time value: milliseconds since the epoch, or the invalid date.
  \<^item> A \<^verbatim>\<open>throw\<close> is the left injection of a sum type.
\<close>

subsection \<open>32-bit integer operators of JavaScript\<close>

definition js_xor :: "int \<Rightarrow> int \<Rightarrow> int" where
  "js_xor a b = sint ((word_of_int a :: 32 word) XOR word_of_int b)"

definition js_or :: "int \<Rightarrow> int \<Rightarrow> int" where
  "js_or a b = sint ((word_of_int a :: 32 word) OR word_of_int b)"

definition js_ushr :: "int \<Rightarrow> nat \<Rightarrow> int" where
  "js_ushr a k = uint (drop_bit (k mod 32) (word_of_int a :: 32 word))"

definition imul :: "int \<Rightarrow> int \<Rightarrow> int" where
  "imul a b = sint ((word_of_int a :: 32 word) * word_of_int b)"

definition charCodeAt :: "char \<Rightarrow> int" where
  "charCodeAt c = int (of_char c)"

subsection \<open>Day seed (FNV-1a)\<close>

text \<open>
  \<^verbatim>\<open>
  function daySeed(dayKey: string) {
      let hash = 2166136261;
      for (let i = 0; i < dayKey.length; i += 1) {
          hash ^= dayKey.charCodeAt(i);
          hash = Math.imul(hash, 16777619);
      }
      return hash >>> 0;
  }
  \<close>
  The loop runs over the characters in order; the accumulator is threaded through.
\<close>

fun daySeed_loop :: "int \<Rightarrow> string \<Rightarrow> int" where
  "daySeed_loop hash [] = hash"
| "daySeed_loop hash (c # cs) = daySeed_loop (imul (js_xor hash (charCodeAt c)) 16777619) cs"

definition daySeed :: "string \<Rightarrow> int" where
  "daySeed dayKey = js_ushr (daySeed_loop 2166136261 dayKey) 0"

text \<open>
  The hash as the specification words it: an unsigned accumulator, XOR with the character
  code, multiplication by the FNV prime modulo \<open>2 ^ 32\<close>.
\<close>

fun fnv1a_spec_acc :: "nat \<Rightarrow> string \<Rightarrow> nat" where
  "fnv1a_spec_acc acc [] = acc"
| "fnv1a_spec_acc acc (c # cs) =
     fnv1a_spec_acc (((acc XOR of_char c) * 16777619) mod 2 ^ 32) cs"

definition fnv1a_spec :: "string \<Rightarrow> nat" where
  "fnv1a_spec s = fnv1a_spec_acc 2166136261 s"

subsection \<open>Day key\<close>

datatype date = Invalid_Date | Time_Value int

definition msPerDay :: int where
  "msPerDay = 86400000"

text \<open>
  The calendar date of a day number (days since 1970-01-01, proleptic Gregorian
  calendar), which is what \<^verbatim>\<open>getUTCFullYear\<close>, \<^verbatim>\<open>getUTCMonth\<close> and \<^verbatim>\<open>getUTCDate\<close>
  return for the day \<open>t div msPerDay\<close> of a time value \<open>t\<close>. The computation works in
  eras of 400 years (146097 days) that start on 1 March.
\<close>

definition civil_from_days :: "int \<Rightarrow> int \<times> int \<times> int" where
  "civil_from_days z0 =
     (let z = z0 + 719468;
          era = z div 146097;
          doe = z mod 146097;
          yoe = (doe - doe div 1460 + doe div 36524 - doe div 146096) div 365;
          y = yoe + era * 400;
          doy = doe - (365 * yoe + yoe div 4 - yoe div 100);
          mp = (5 * doy + 2) div 153;
          d = doy - (153 * mp + 2) div 5 + 1;
          m = (if mp < 10 then mp + 3 else mp - 9)
      in (if m \<le> 2 then y + 1 else y, m, d))"

definition getUTCFullYear :: "int \<Rightarrow> int" where
  "getUTCFullYear t = fst (civil_from_days (t div msPerDay))"

definition getUTCMonth :: "int \<Rightarrow> int" where
  "getUTCMonth t = fst (snd (civil_from_days (t div msPerDay))) - 1"

definition getUTCDate :: "int \<Rightarrow> int" where
  "getUTCDate t = snd (snd (civil_from_days (t div msPerDay)))"

text \<open>\<^verbatim>\<open>String(n)\<close> for an integer \<open>n\<close>: its decimal digits, with a sign when negative.\<close>

function digits_of :: "int \<Rightarrow> string" where
  "digits_of n =
     (if n < 10 then [char_of (48 + n)]
      else digits_of (n div 10) @ [char_of (48 + n mod 10)])"
  by pat_completeness auto
termination
  by (relation "measure nat") auto

declare digits_of.simps [simp del]

definition string_of_int :: "int \<Rightarrow> string" where
  "string_of_int i = (if i < 0 then CHR ''-'' # digits_of (- i) else digits_of i)"

text \<open>\<^verbatim>\<open>s.padStart(2, "0")\<close>.\<close>

definition padStart2 :: "string \<Rightarrow> string" where
  "padStart2 s = (if length s < 2 then replicate (2 - length s) CHR ''0'' @ s else s)"

text \<open>
  \<^verbatim>\<open>
  function toUtcDayKey(inputDate = new Date()) {
      const d = new Date(inputDate);
      const year = d.getUTCFullYear();
      const month = String(d.getUTCMonth() + 1).padStart(2, "0");
      const day = String(d.getUTCDate()).padStart(2, "0");
      return `${year}-${month}-${day}`;
  }
  \<close>
  On the invalid date every getter is NaN, and the key is \<^verbatim>\<open>NaN-NaN-NaN\<close>.
\<close>

fun toUtcDayKey :: "date \<Rightarrow> string" where
  "toUtcDayKey Invalid_Date = ''NaN-NaN-NaN''"
| "toUtcDayKey (Time_Value t) =
     (let year = getUTCFullYear t;
          month = padStart2 (string_of_int (getUTCMonth t + 1));
          day = padStart2 (string_of_int (getUTCDate t))
      in string_of_int year @ ''-'' @ month @ ''-'' @ day)"

subsection \<open>Deterministic selector (Mulberry32)\<close>

text \<open>
  \<^verbatim>\<open>
  function mulberry32(seed: number) {
      let t = seed >>> 0;
      return () => {
          t += 0x6d2b79f5;
          let v = Math.imul(t ^ (t >>> 15), t | 1);
          v ^= v + Math.imul(v ^ (v >>> 7), v | 61);
          return ((v ^ (v >>> 14)) >>> 0) / 4294967296;
      };
  }
  \<close>
  The closure's variable \<open>t\<close> is the state of the generator. One call maps the state to
  the 32-bit numerator \<open>u\<close> of the returned number \<open>u / 4294967296\<close> and to the new
  state. The additions are additions of numbers (no wrap-around); \<open>0x6d2b79f5\<close> is
  1831565813.
\<close>

definition mulberry32 :: "int \<Rightarrow> int" where
  "mulberry32 seed = js_ushr seed 0"

definition mulberry32_call :: "int \<Rightarrow> int \<times> int" where
  "mulberry32_call t0 =
     (let t = t0 + 1831565813;
          v = imul (js_xor t (js_ushr t 15)) (js_or t 1);
          v = js_xor v (v + imul (js_xor v (js_ushr v 7)) (js_or v 61))
      in (js_ushr (js_xor v (js_ushr v 14)) 0, t))"

text \<open>The number that the call returns: the numerator over \<open>2 ^ 32\<close>, exact in a double.\<close>

definition draw_value :: "int \<Rightarrow> rat" where
  "draw_value u = of_int u / 4294967296"

text \<open>
  \<^verbatim>\<open>Math.floor(rng() * bank.length)\<close>. The product of the doubles \<open>u / 2 ^ 32\<close> and
  \<open>n\<close> is the exact product \<open>u * n / 2 ^ 32\<close> rounded to 53 significant bits, ties to
  even; scaling by a power of two does not change the rounding, so the integer \<open>u * n\<close>
  is rounded and the floor of the quotient by \<open>2 ^ 32\<close> taken.
\<close>

function bit_length :: "int \<Rightarrow> nat" where
  "bit_length n = (if n \<le> 0 then 0 else Suc (bit_length (n div 2)))"
  by pat_completeness auto
termination
  by (relation "measure nat") auto

declare bit_length.simps [simp del]

definition round53 :: "int \<Rightarrow> int" where
  "round53 N =
     (if N < 2 ^ 53 then N
      else
        let e = bit_length N - 53;
            q = N div 2 ^ e;
            r = N mod 2 ^ e;
            h = 2 ^ (e - 1)
        in (if r > h \<or> (r = h \<and> odd q) then q + 1 else q) * 2 ^ e)"

definition floor_draw_times :: "int \<Rightarrow> nat \<Rightarrow> int" where
  "floor_draw_times u n = round53 (u * int n) div 2 ^ 32"

text \<open>\<^verbatim>\<open>xs[i]\<close>: \<^verbatim>\<open>undefined\<close> outside the array.\<close>

definition js_nth :: "'a list \<Rightarrow> int \<Rightarrow> 'a option" where
  "js_nth xs i = (if 0 \<le> i \<and> i < int (length xs) then Some (xs ! nat i) else None)"

datatype js_error = Error string

record 'p DailyResult =
  dayKey :: string
  seed :: int
  index :: int
  puzzle :: "'p option"

text \<open>
  \<^verbatim>\<open>
  export function pickDailyPuzzle(inputDate = new Date(), bank = puzzleBank): DailyResult {
      if (!Array.isArray(bank) || bank.length === 0) {
          throw new Error("Puzzle bank cannot be empty.");
      }
      const dayKey = toUtcDayKey(inputDate);
      const seed = daySeed(dayKey);
      const rng = mulberry32(seed);
      const index = Math.floor(rng() * bank.length);
      const puzzle = bank[index] as Puzzle;
      return { dayKey, seed, index, puzzle };
  }
  \<close>
\<close>

definition pickDailyPuzzle :: "date \<Rightarrow> 'p list \<Rightarrow> js_error + 'p DailyResult" where
  "pickDailyPuzzle inputDate bank =
     (if length bank = 0 then Inl (Error ''Puzzle bank cannot be empty.'')
      else
        let dk = toUtcDayKey inputDate;
            sd = daySeed dk;
            rng = mulberry32 sd;
            (u, rng') = mulberry32_call rng;
            i = floor_draw_times u (length bank);
            p = js_nth bank i
        in Inr \<lparr>dayKey = dk, seed = sd, index = i, puzzle = p\<rparr>)"

text \<open>The first draw of the generator seeded with the day's seed.\<close>

definition first_draw :: "date \<Rightarrow> rat" where
  "first_draw inputDate =
     draw_value (fst (mulberry32_call (mulberry32 (daySeed (toUtcDayKey inputDate)))))"

subsection \<open>Scorer\<close>

text \<open>
  \<^verbatim>\<open>
  export function computeScore({ correct, hintsUsed, timeSeconds, streakDays }): number {
      if (!correct) return 0;
      const baseScore = 100;
      const hintPenalty = Math.max(0, hintsUsed - 1) * 15;
      const timePenalty = Math.min(35, Math.floor(Math.max(0, timeSeconds) / 6));
      const streakBonus = Math.min(25, Math.floor(Math.max(0, streakDays) / 2));
      return Math.max(5, baseScore - hintPenalty - timePenalty + streakBonus);
  }
  \<close>
  The destructured parameter object is four arguments. On integers,
  \<^verbatim>\<open>Math.floor(x / 6)\<close> with \<open>0 \<le> x\<close> is \<open>x div 6\<close>.
\<close>

definition computeScore :: "bool \<Rightarrow> int \<Rightarrow> int \<Rightarrow> int \<Rightarrow> int" where
  "computeScore correct hintsUsed timeSeconds streakDays =
     (if \<not> correct then 0
      else
        let baseScore = 100;
            hintPenalty = max 0 (hintsUsed - 1) * 15;
            timePenalty = min 35 (max 0 timeSeconds div 6);
            streakBonus = min 25 (max 0 streakDays div 2)
        in max 5 (baseScore - hintPenalty - timePenalty + streakBonus))"

subsection \<open>Strings\<close>

text \<open>
  Text that a player types (a guess, a clue) and text it is compared with (an answer, a
  forbidden word, a blocked term) is a JavaScript string: a list of UTF-16 code units.
  \<open>utf16\<close> writes such a string from characters below U+0100.
\<close>

type_synonym jsstring = "16 word list"

definition utf16 :: "string \<Rightarrow> jsstring" where
  "utf16 s = map of_char s"

text \<open>
  \<^verbatim>\<open>toLowerCase\<close> maps every code point of the string (a surrogate pair is one code
  point) to its lower-case form and writes the result in UTF-16 again. The lower-case
  forms are those of the Unicode character database (version 14): an entry
  \<open>(lo, hi, step, tgt)\<close> of the table maps the code points \<open>lo, lo + step, \<dots>, hi\<close> to
  \<open>tgt, tgt + step, \<dots>\<close>; a code point in no entry is its own lower-case form; U+0130 alone
  has a form of two code points, \<open>i\<close> and U+0307. The one rule that looks at the
  neighbours is not modelled: U+03A3 at the end of a word becomes U+03C2, where the table
  gives U+03C3. Both lie outside ASCII, and every function below reads a lower-cased
  string through comparisons with ASCII code units only.
\<close>

definition lower_ranges :: "(int \<times> int \<times> int \<times> int) list" where
  "lower_ranges =
    [(65, 90, 1, 97), (192, 214, 1, 224), (216, 222, 1, 248), (256, 302, 2, 257),
     (306, 310, 2, 307), (313, 327, 2, 314), (330, 374, 2, 331), (376, 376, 1, 255),
     (377, 381, 2, 378), (385, 385, 1, 595), (386, 388, 2, 387), (390, 390, 1, 596),
     (391, 391, 1, 392), (393, 394, 1, 598), (395, 395, 1, 396), (398, 398, 1, 477),
     (399, 399, 1, 601), (400, 400, 1, 603), (401, 401, 1, 402), (403, 403, 1, 608),
     (404, 404, 1, 611), (406, 406, 1, 617), (407, 407, 1, 616), (408, 408, 1, 409),
     (412, 412, 1, 623), (413, 413, 1, 626), (415, 415, 1, 629), (416, 420, 2, 417),
     (422, 422, 1, 640), (423, 423, 1, 424), (425, 425, 1, 643), (428, 428, 1, 429),
     (430, 430, 1, 648), (431, 431, 1, 432), (433, 434, 1, 650), (435, 437, 2, 436),
     (439, 439, 1, 658), (440, 440, 1, 441), (444, 444, 1, 445), (452, 452, 1, 454),
     (453, 453, 1, 454), (455, 455, 1, 457), (456, 456, 1, 457), (458, 458, 1, 460),
     (459, 475, 2, 460), (478, 494, 2, 479), (497, 497, 1, 499), (498, 500, 2, 499),
     (502, 502, 1, 405), (503, 503, 1, 447), (504, 542, 2, 505), (544, 544, 1, 414),
     (546, 562, 2, 547), (570, 570, 1, 11365), (571, 571, 1, 572), (573, 573, 1, 410),
     (574, 574, 1, 11366), (577, 577, 1, 578), (579, 579, 1, 384), (580, 580, 1, 649),
     (581, 581, 1, 652), (582, 590, 2, 583), (880, 882, 2, 881), (886, 886, 1, 887),
     (895, 895, 1, 1011), (902, 902, 1, 940), (904, 906, 1, 941), (908, 908, 1, 972),
     (910, 911, 1, 973), (913, 929, 1, 945), (931, 939, 1, 963), (975, 975, 1, 983),
     (984, 1006, 2, 985), (1012, 1012, 1, 952), (1015, 1015, 1, 1016), (1017, 1017, 1, 1010),
     (1018, 1018, 1, 1019), (1021, 1023, 1, 891), (1024, 1039, 1, 1104),
     (1040, 1071, 1, 1072), (1120, 1152, 2, 1121), (1162, 1214, 2, 1163),
     (1216, 1216, 1, 1231), (1217, 1229, 2, 1218), (1232, 1326, 2, 1233),
     (1329, 1366, 1, 1377), (4256, 4293, 1, 11520), (4295, 4295, 1, 11559),
     (4301, 4301, 1, 11565), (5024, 5103, 1, 43888), (5104, 5109, 1, 5112),
     (7312, 7354, 1, 4304), (7357, 7359, 1, 4349), (7680, 7828, 2, 7681),
     (7838, 7838, 1, 223), (7840, 7934, 2, 7841), (7944, 7951, 1, 7936),
     (7960, 7965, 1, 7952), (7976, 7983, 1, 7968), (7992, 7999, 1, 7984),
     (8008, 8013, 1, 8000), (8025, 8031, 2, 8017), (8040, 8047, 1, 8032),
     (8072, 8079, 1, 8064), (8088, 8095, 1, 8080), (8104, 8111, 1, 8096),
     (8120, 8121, 1, 8112), (8122, 8123, 1, 8048), (8124, 8124, 1, 8115),
     (8136, 8139, 1, 8050), (8140, 8140, 1, 8131), (8152, 8153, 1, 8144),
     (8154, 8155, 1, 8054), (8168, 8169, 1, 8160), (8170, 8171, 1, 8058),
     (8172, 8172, 1, 8165), (8184, 8185, 1, 8056), (8186, 8187, 1, 8060),
     (8188, 8188, 1, 8179), (8486, 8486, 1, 969), (8490, 8490, 1, 107), (8491, 8491, 1, 229),
     (8498, 8498, 1, 8526), (8544, 8559, 1, 8560), (8579, 8579, 1, 8580),
     (9398, 9423, 1, 9424), (11264, 11311, 1, 11312), (11360, 11360, 1, 11361),
     (11362, 11362, 1, 619), (11363, 11363, 1, 7549), (11364, 11364, 1, 637),
     (11367, 11371, 2, 11368), (11373, 11373, 1, 593), (11374, 11374, 1, 625),
     (11375, 11375, 1, 592), (11376, 11376, 1, 594), (11378, 11378, 1, 11379),
     (11381, 11381, 1, 11382), (11390, 11391, 1, 575), (11392, 11490, 2, 11393),
     (11499, 11501, 2, 11500), (11506, 11506, 1, 11507), (42560, 42604, 2, 42561),
     (42624, 42650, 2, 42625), (42786, 42798, 2, 42787), (42802, 42862, 2, 42803),
     (42873, 42875, 2, 42874), (42877, 42877, 1, 7545), (42878, 42886, 2, 42879),
     (42891, 42891, 1, 42892), (42893, 42893, 1, 613), (42896, 42898, 2, 42897),
     (42902, 42920, 2, 42903), (42922, 42922, 1, 614), (42923, 42923, 1, 604),
     (42924, 42924, 1, 609), (42925, 42925, 1, 620), (42926, 42926, 1, 618),
     (42928, 42928, 1, 670), (42929, 42929, 1, 647), (42930, 42930, 1, 669),
     (42931, 42931, 1, 43859), (42932, 42946, 2, 42933), (42948, 42948, 1, 42900),
     (42949, 42949, 1, 642), (42950, 42950, 1, 7566), (42951, 42953, 2, 42952),
     (42960, 42960, 1, 42961), (42966, 42968, 2, 42967), (42997, 42997, 1, 42998),
     (65313, 65338, 1, 65345), (66560, 66599, 1, 66600), (66736, 66771, 1, 66776),
     (66928, 66964, 2, 66967), (66929, 66938, 1, 66968), (66941, 66954, 1, 66980),
     (66957, 66962, 1, 66996), (66965, 66965, 1, 67004), (68736, 68786, 1, 68800),
     (71840, 71871, 1, 71872), (93760, 93791, 1, 93792), (125184, 125217, 1, 125218)]"

fun lookup_lower :: "(int \<times> int \<times> int \<times> int) list \<Rightarrow> int \<Rightarrow> int" where
  "lookup_lower [] c = c"
| "lookup_lower ((lo, hi, step, tgt) # rs) c =
     (if lo \<le> c \<and> c \<le> hi \<and> (c - lo) mod step = 0 then tgt + (c - lo)
      else lookup_lower rs c)"

definition lower_code_point :: "int \<Rightarrow> int list" where
  "lower_code_point c = (if c = 304 then [105, 775] else [lookup_lower lower_ranges c])"

text \<open>
  Surrogates: a code unit from U+D800 to U+DBFF followed by one from U+DC00 to U+DFFF is
  one code point from U+10000 on; any other code unit is the code point of its value.
\<close>

definition is_high_surrogate :: "16 word \<Rightarrow> bool" where
  "is_high_surrogate u = (55296 \<le> uint u \<and> uint u \<le> 56319)"

definition is_low_surrogate :: "16 word \<Rightarrow> bool" where
  "is_low_surrogate u = (56320 \<le> uint u \<and> uint u \<le> 57343)"

fun code_points :: "jsstring \<Rightarrow> int list" where
  "code_points [] = []"
| "code_points [u] = [uint u]"
| "code_points (u # v # r) =
     (if is_high_surrogate u \<and> is_low_surrogate v
      then (65536 + (uint u - 55296) * 1024 + (uint v - 56320)) # code_points r
      else uint u # code_points (v # r))"

definition code_units :: "int \<Rightarrow> jsstring" where
  "code_units c =
     (if c < 65536 then [word_of_int c]
      else [word_of_int (55296 + (c - 65536) div 1024),
            word_of_int (56320 + (c - 65536) mod 1024)])"

definition toLowerCase :: "jsstring \<Rightarrow> jsstring" where
  "toLowerCase s =
     concat (map (\<lambda>c. concat (map code_units (lower_code_point c))) (code_points s))"

text \<open>The character class \<^verbatim>\<open>[a-z0-9]\<close>.\<close>

definition is_az09 :: "16 word \<Rightarrow> bool" where
  "is_az09 u = ((97 \<le> uint u \<and> uint u \<le> 122) \<or> (48 \<le> uint u \<and> uint u \<le> 57))"

text \<open>\<^verbatim>\<open>s.replace(/[^a-z0-9]/g, "")\<close>: every code unit outside the class is dropped.\<close>

definition replace_non_az09 :: "jsstring \<Rightarrow> jsstring" where
  "replace_non_az09 s = filter is_az09 s"

text \<open>
  \<^verbatim>\<open>trim\<close> strips white space and line terminators from both ends: TAB, LF, VT, FF, CR,
  SPACE, NBSP, U+1680, U+2000 to U+200A, U+2028, U+2029, U+202F, U+205F, U+3000 and
  U+FEFF.
\<close>

definition is_js_space :: "16 word \<Rightarrow> bool" where
  "is_js_space u =
     (let n = uint u
      in (9 \<le> n \<and> n \<le> 13) \<or> n = 32 \<or> n = 160 \<or> n = 5760 \<or> (8192 \<le> n \<and> n \<le> 8202)
         \<or> n = 8232 \<or> n = 8233 \<or> n = 8239 \<or> n = 8287 \<or> n = 12288 \<or> n = 65279)"

definition trim :: "jsstring \<Rightarrow> jsstring" where
  "trim s = rev (dropWhile is_js_space (rev (dropWhile is_js_space s)))"

text \<open>\<^verbatim>\<open>s.includes(t)\<close>: \<open>t\<close> occurs in \<open>s\<close> as a contiguous substring.\<close>

definition js_includes :: "jsstring \<Rightarrow> jsstring \<Rightarrow> bool" where
  "js_includes s t = sublist t s"

text \<open>
  \<^verbatim>\<open>
  function normalizeText(value = "") {
      return value.toLowerCase().replace(/[^a-z0-9]/g, "").trim();
  }
  \<close>
\<close>

definition normalizeText :: "jsstring \<Rightarrow> jsstring" where
  "normalizeText v = trim (replace_non_az09 (toLowerCase v))"

subsection \<open>Guess evaluator\<close>

record GuessEvaluation =
  normalizedGuess :: jsstring
  normalizedAnswer :: jsstring
  correct :: bool

text \<open>
  \<^verbatim>\<open>
  export function evaluateGuess({ guess, answer }): GuessEvaluation {
      const normalizedGuess = normalizeText(guess);
      const normalizedAnswer = normalizeText(answer);
      return { normalizedGuess, normalizedAnswer,
          correct: normalizedGuess.length > 0 && normalizedGuess === normalizedAnswer };
  }
  \<close>
\<close>

definition evaluateGuess :: "jsstring \<Rightarrow> jsstring \<Rightarrow> GuessEvaluation" where
  "evaluateGuess guess answer =
     (let ng = normalizeText guess;
          na = normalizeText answer
      in \<lparr>normalizedGuess = ng, normalizedAnswer = na,
          correct = (length ng > 0 \<and> ng = na)\<rparr>)"

text \<open>
  Normalisation as the specification words it: lower-case, then keep exactly the ASCII
  letters (of either case) and the digits.
\<close>

definition is_ascii_letter_or_digit :: "16 word \<Rightarrow> bool" where
  "is_ascii_letter_or_digit u =
     ((65 \<le> uint u \<and> uint u \<le> 90) \<or> (97 \<le> uint u \<and> uint u \<le> 122)
      \<or> (48 \<le> uint u \<and> uint u \<le> 57))"

definition normalize_spec :: "jsstring \<Rightarrow> jsstring" where
  "normalize_spec s = filter is_ascii_letter_or_digit (toLowerCase s)"

text \<open>
  The code units whose lower-case form has an ASCII letter or digit: the ASCII letters and
  digits themselves, U+212A (the Kelvin sign, lower-cased to \<open>k\<close>) and U+0130 (the dotted
  capital I, lower-cased to \<open>i\<close> and U+0307).
\<close>

definition lowers_into_ascii :: "16 word \<Rightarrow> bool" where
  "lowers_into_ascii u =
     ((48 \<le> uint u \<and> uint u \<le> 57) \<or> (65 \<le> uint u \<and> uint u \<le> 90)
      \<or> (97 \<le> uint u \<and> uint u \<le> 122) \<or> uint u = 8490 \<or> uint u = 304)"

text \<open>What the proofs need of an entry of the lower-case table.\<close>

definition entry_ok :: "int \<times> int \<times> int \<times> int \<Rightarrow> bool" where
  "entry_ok e =
     (case e of (lo, hi, step, tgt) \<Rightarrow>
        0 \<le> lo \<and> lo \<le> hi \<and> tgt + (hi - lo) < 1114112
        \<and> (tgt > 122 \<or> (lo = 65 \<and> hi = 90 \<and> tgt = 97)
             \<or> (lo = 8490 \<and> hi = 8490 \<and> tgt = 107)))"

subsection \<open>Clue validator\<close>

definition BLOCKED_TERMS :: "jsstring list" where
  "BLOCKED_TERMS = map utf16 [''http://'', ''https://'', ''discord.gg'', ''t.me/'']"

record CommunityClueOptions =
  forbiddenWords :: "jsstring list option"
  existingClues :: "jsstring list option"

record ValidationResult =
  valid :: bool
  reason :: string

text \<open>
  \<^verbatim>\<open>
  for (const term of BLOCKED_TERMS) {
      if (lower.includes(term)) {
          return { valid: false, reason: "Links are not allowed in clues." };
      }
  }
  \<close>
  The loop, as the test whether it returns early.
\<close>

fun has_blocked_term :: "jsstring \<Rightarrow> jsstring list \<Rightarrow> bool" where
  "has_blocked_term lower [] = False"
| "has_blocked_term lower (blocked # rest) =
     (if js_includes lower blocked then True else has_blocked_term lower rest)"

text \<open>
  \<^verbatim>\<open>
  for (const forbidden of forbiddenWords) {
      const normalizedForbidden = normalizeText(forbidden);
      if (normalizedForbidden && normalizedRaw.includes(normalizedForbidden)) {
          return { valid: false, reason: "Clue cannot contain the answer." };
      }
  }
  \<close>
  A string is truthy when it is not empty.
\<close>

fun has_forbidden_word :: "jsstring \<Rightarrow> jsstring list \<Rightarrow> bool" where
  "has_forbidden_word normalizedRaw [] = False"
| "has_forbidden_word normalizedRaw (forbidden # rest) =
     (let normalizedForbidden = normalizeText forbidden
      in if normalizedForbidden \<noteq> [] \<and> js_includes normalizedRaw normalizedForbidden
         then True else has_forbidden_word normalizedRaw rest)"

text \<open>
  \<^verbatim>\<open>
  export function validateCommunityClue(text: string, options = {}): ValidationResult {
      const raw = String(text || "").trim();
      if (raw.length < 8) return { valid: false, reason: "Clue must be at least 8 characters." };
      if (raw.length > 180) return { valid: false, reason: "Clue must be 180 characters or fewer." };
      const lower = raw.toLowerCase();
      for (const term of BLOCKED_TERMS) ...
      const forbiddenWords = Array.isArray(options.forbiddenWords) ? options.forbiddenWords : [];
      const normalizedRaw = normalizeText(raw);
      for (const forbidden of forbiddenWords) ...
      const existingClues = Array.isArray(options.existingClues) ? options.existingClues : [];
      const duplicate = existingClues.some((item) => normalizeText(item) === normalizedRaw);
      if (duplicate) return { valid: false, reason: "This clue already exists for today." };
      return { valid: true, reason: "ok" };
  }
  \<close>
  An option that is left out is \<open>None\<close>. For a string, \<^verbatim>\<open>String(text || "")\<close> is the
  string itself.
\<close>

definition validateCommunityClue :: "jsstring \<Rightarrow> CommunityClueOptions \<Rightarrow> ValidationResult" where
  "validateCommunityClue clueText options =
     (let raw = trim clueText in
      if length raw < 8
      then \<lparr>valid = False, reason = ''Clue must be at least 8 characters.''\<rparr>
      else if length raw > 180
      then \<lparr>valid = False, reason = ''Clue must be 180 characters or fewer.''\<rparr>
      else
        let lower = toLowerCase raw in
        if has_blocked_term lower BLOCKED_TERMS
        then \<lparr>valid = False, reason = ''Links are not allowed in clues.''\<rparr>
        else
          let forbidden = (case forbiddenWords options of Some ws \<Rightarrow> ws | None \<Rightarrow> []);
              normalizedRaw = normalizeText raw
          in
          if has_forbidden_word normalizedRaw forbidden
          then \<lparr>valid = False, reason = ''Clue cannot contain the answer.''\<rparr>
          else
            let existing = (case existingClues options of Some cs \<Rightarrow> cs | None \<Rightarrow> []);
                duplicate = list_ex (\<lambda>item. normalizeText item = normalizedRaw) existing
            in
            if duplicate
            then \<lparr>valid = False, reason = ''This clue already exists for today.''\<rparr>
            else \<lparr>valid = True, reason = ''ok''\<rparr>)"

text \<open>The default \<^verbatim>\<open>options = {}\<close>: both lists left out.\<close>

definition no_options :: CommunityClueOptions where
  "no_options = \<lparr>forbiddenWords = None, existingClues = None\<rparr>"

text \<open>
  The validator as the specification words it, rules in order, the first failure winning.
  Rule 4 is worded there as: the normalised text contains the normalised form of any
  forbidden word.
\<close>

definition validate_spec :: "jsstring \<Rightarrow> jsstring list \<Rightarrow> jsstring list \<Rightarrow> ValidationResult" where
  "validate_spec clueText forbidden existing =
     (if length (trim clueText) < 8
      then \<lparr>valid = False, reason = ''Clue must be at least 8 characters.''\<rparr>
      else if length (trim clueText) > 180
      then \<lparr>valid = False, reason = ''Clue must be 180 characters or fewer.''\<rparr>
      else if \<exists>b \<in> set BLOCKED_TERMS. sublist b (toLowerCase (trim clueText))
      then \<lparr>valid = False, reason = ''Links are not allowed in clues.''\<rparr>
      else if \<exists>w \<in> set forbidden. sublist (normalizeText w) (normalizeText (trim clueText))
      then \<lparr>valid = False, reason = ''Clue cannot contain the answer.''\<rparr>
      else if \<exists>e \<in> set existing. normalizeText e = normalizeText (trim clueText)
      then \<lparr>valid = False, reason = ''This clue already exists for today.''\<rparr>
      else \<lparr>valid = True, reason = ''ok''\<rparr>)"

text \<open>The same, with rule 4 restricted to forbidden words whose normalised form is not empty.\<close>

definition validate_amended :: "jsstring \<Rightarrow> jsstring list \<Rightarrow> jsstring list \<Rightarrow> ValidationResult" where
  "validate_amended clueText forbidden existing =
     (if length (trim clueText) < 8
      then \<lparr>valid = False, reason = ''Clue must be at least 8 characters.''\<rparr>
      else if length (trim clueText) > 180
      then \<lparr>valid = False, reason = ''Clue must be 180 characters or fewer.''\<rparr>
      else if \<exists>b \<in> set BLOCKED_TERMS. sublist b (toLowerCase (trim clueText))
      then \<lparr>valid = False, reason = ''Links are not allowed in clues.''\<rparr>
      else if \<exists>w \<in> set forbidden. normalizeText w \<noteq> []
                \<and> sublist (normalizeText w) (normalizeText (trim clueText))
      then \<lparr>valid = False, reason = ''Clue cannot contain the answer.''\<rparr>
      else if \<exists>e \<in> set existing. normalizeText e = normalizeText (trim clueText)
      then \<lparr>valid = False, reason = ''This clue already exists for today.''\<rparr>
      else \<lparr>valid = True, reason = ''ok''\<rparr>)"

subsection \<open>Clue ranker\<close>

text \<open>
  The fields of \<^verbatim>\<open>CommunityClue\<close> (types/index.ts) without \<^verbatim>\<open>aiAnalysis\<close>, which no
  function below reads. The type declares \<^verbatim>\<open>createdAt\<close> a \<^verbatim>\<open>Date\<close>, and \<^verbatim>\<open>submitClue\<close>
  creates it so; a clue that \<^verbatim>\<open>getStoredClues\<close> reloads with \<^verbatim>\<open>JSON.parse\<close> carries in
  its place the ISO string that \<^verbatim>\<open>JSON.stringify\<close> wrote. A value of \<^verbatim>\<open>createdAt\<close> is
  therefore a \<^verbatim>\<open>Date\<close> object (valid or invalid) or the string of a stored date, kept as
  the time that the string denotes.
\<close>

datatype created_at = Date_object date | Iso_string int

record CommunityClue =
  clue_id :: string
  clue_text :: jsstring
  author :: string
  upvotes :: int
  modBoost :: int
  createdAt :: created_at
  approved :: bool

text \<open>\<^verbatim>\<open>d.getTime()\<close>: the time value, NaN (here \<open>None\<close>) on the invalid date.\<close>

definition getTime :: "date \<Rightarrow> int option" where
  "getTime d = (case d of Invalid_Date \<Rightarrow> None | Time_Value t \<Rightarrow> Some t)"

text \<open>\<^verbatim>\<open>x instanceof Date ? x.getTime() : 0\<close>.\<close>

definition date_or_zero :: "created_at \<Rightarrow> int option" where
  "date_or_zero x = (case x of Date_object d \<Rightarrow> getTime d | Iso_string s \<Rightarrow> Some 0)"

text \<open>
  \<^verbatim>\<open>
  (a, b) => {
      const scoreA = (a.upvotes || 0) + (a.modBoost || 0) * 3;
      const scoreB = (b.upvotes || 0) + (b.modBoost || 0) * 3;
      if (scoreA !== scoreB) return scoreB - scoreA;
      const dateA = a.createdAt instanceof Date ? a.createdAt.getTime() : 0;
      const dateB = b.createdAt instanceof Date ? b.createdAt.getTime() : 0;
      return dateB - dateA;
  }
  \<close>
  On an integer, \<^verbatim>\<open>x || 0\<close> is \<open>x\<close>. The result is a number or NaN (\<open>None\<close>): a
  difference with a NaN operand is NaN.
\<close>

definition compareClues :: "CommunityClue \<Rightarrow> CommunityClue \<Rightarrow> int option" where
  "compareClues a b =
     (let scoreA = upvotes a + modBoost a * 3;
          scoreB = upvotes b + modBoost b * 3
      in if scoreA \<noteq> scoreB then Some (scoreB - scoreA)
         else
           let dateA = date_or_zero (createdAt a);
               dateB = date_or_zero (createdAt b)
           in (case (dateB, dateA) of
                 (Some y, Some x) \<Rightarrow> Some (y - x)
               | _ \<Rightarrow> None))"

text \<open>
  \<^verbatim>\<open>Array.prototype.sort\<close> with a comparator is a stable sort: \<open>a\<close> stays before \<open>b\<close>
  unless the comparator is positive on \<open>(a, b)\<close>, and a result NaN counts as 0. It is
  modelled as insertion sort, inserting from the right, so that an element goes in front
  of the elements it ties with. For a comparator that is not consistent (here this needs
  an invalid \<^verbatim>\<open>Date\<close> among the clues) ECMAScript leaves the order to the implementation;
  the model is then one of the orders it permits.
\<close>

definition sort_compare :: "int option \<Rightarrow> int" where
  "sort_compare v = (case v of None \<Rightarrow> 0 | Some n \<Rightarrow> n)"

fun insert_by :: "('a \<Rightarrow> 'a \<Rightarrow> int option) \<Rightarrow> 'a \<Rightarrow> 'a list \<Rightarrow> 'a list" where
  "insert_by cmp x [] = [x]"
| "insert_by cmp x (y # ys) =
     (if sort_compare (cmp x y) \<le> 0 then x # y # ys else y # insert_by cmp x ys)"

definition js_sort :: "('a \<Rightarrow> 'a \<Rightarrow> int option) \<Rightarrow> 'a list \<Rightarrow> 'a list" where
  "js_sort cmp xs = foldr (insert_by cmp) xs []"

text \<open>
  \<^verbatim>\<open>xs.slice(0, end)\<close>: a negative \<open>end\<close> counts from the end of the array.
\<close>

definition slice0 :: "'a list \<Rightarrow> int \<Rightarrow> 'a list" where
  "slice0 xs e =
     (let len = int (length xs);
          final = (if e < 0 then max (len + e) 0 else min e len)
      in take (nat final) xs)"

text \<open>
  \<^verbatim>\<open>
  export function rankCommunityClues(clues: CommunityClue[], limit = 5): CommunityClue[] {
      if (!Array.isArray(clues)) return [];
      return [...clues]
          .filter((item) => item && typeof item.text === "string")
          .filter((item) => validateCommunityClue(item.text).valid)
          .sort((a, b) => ...)
          .slice(0, limit);
  }
  \<close>
  The first filter keeps every element of a typed array.
\<close>

definition rankCommunityClues :: "CommunityClue list \<Rightarrow> int \<Rightarrow> CommunityClue list" where
  "rankCommunityClues clues limit =
     slice0
       (js_sort compareClues
          (filter (\<lambda>item. valid (validateCommunityClue (clue_text item) no_options))
             (filter (\<lambda>item. True) clues)))
       limit"

definition rankCommunityClues_default :: "CommunityClue list \<Rightarrow> CommunityClue list" where
  "rankCommunityClues_default clues = rankCommunityClues clues 5"

text \<open>
  The creation time that the comparator uses: the time value of a valid \<^verbatim>\<open>Date\<close>
  object, and 0 for every other value. The ranking key is the combined score first, that
  time second.
\<close>

definition created_time :: "CommunityClue \<Rightarrow> int" where
  "created_time c =
     (case createdAt c of Date_object (Time_Value t) \<Rightarrow> t | _ \<Rightarrow> 0)"

definition rank_key :: "CommunityClue \<Rightarrow> int \<times> int" where
  "rank_key c = (upvotes c + modBoost c * 3, created_time c)"

definition ranks_before_or_ties :: "CommunityClue \<Rightarrow> CommunityClue \<Rightarrow> bool" where
  "ranks_before_or_ties a b =
     (upvotes a + modBoost a * 3 > upvotes b + modBoost b * 3
      \<or> (upvotes a + modBoost a * 3 = upvotes b + modBoost b * 3
          \<and> created_time a \<ge> created_time b))"

text \<open>The time at which a clue was created, whatever form \<^verbatim>\<open>createdAt\<close> has.\<close>

definition denoted_time :: "created_at \<Rightarrow> int" where
  "denoted_time x =
     (case x of
        Date_object (Time_Value t) \<Rightarrow> t
      | Date_object Invalid_Date \<Rightarrow> 0
      | Iso_string t \<Rightarrow> t)"

text \<open>The length and link rules of the validator.\<close>

definition passes_length_and_link_rules :: "jsstring \<Rightarrow> bool" where
  "passes_length_and_link_rules t =
     (8 \<le> length (trim t) \<and> length (trim t) \<le> 180
      \<and> \<not> (\<exists>b \<in> set BLOCKED_TERMS. sublist b (toLowerCase (trim t))))"

text \<open>The clues that pass the ranker's second filter, in their input order.\<close>

definition revalidated :: "CommunityClue list \<Rightarrow> CommunityClue list" where
  "revalidated clues =
     filter (\<lambda>item. valid (validateCommunityClue (clue_text item) no_options)) clues"

text \<open>The ranking key negated, so that ascending order on it is the ranker's order.\<close>

definition desc_key :: "CommunityClue \<Rightarrow> int \<times> int" where
  "desc_key c = (- (upvotes c + modBoost c * 3), - created_time c)"

text \<open>Two clues with the same normalised text; both contain the answer \<^verbatim>\<open>karma\<close>.\<close>

definition example_clue_1 :: CommunityClue where
  "example_clue_1 =
     \<lparr>clue_id = ''c1'', clue_text = utf16 ''the answer is karma'', author = ''u1'',
      upvotes = 1, modBoost = 0, createdAt = Date_object (Time_Value 1000),
      approved = True\<rparr>"

definition example_clue_2 :: CommunityClue where
  "example_clue_2 =
     \<lparr>clue_id = ''c2'', clue_text = utf16 ''The ANSWER is: karma!'', author = ''u2'',
      upvotes = 1, modBoost = 0, createdAt = Date_object (Time_Value 2000),
      approved = True\<rparr>"

text \<open>The ranking example of the specification: 5 upvotes against 2 upvotes and 2 boosts.\<close>

definition example_clue_3 :: CommunityClue where
  "example_clue_3 =
     \<lparr>clue_id = ''c3'', clue_text = utf16 ''people upvote this a lot'', author = ''u3'',
      upvotes = 5, modBoost = 0, createdAt = Date_object (Time_Value 3000),
      approved = True\<rparr>"

definition example_clue_4 :: CommunityClue where
  "example_clue_4 =
     \<lparr>clue_id = ''c4'', clue_text = utf16 ''moderators like this one'', author = ''u4'',
      upvotes = 2, modBoost = 2, createdAt = Date_object (Time_Value 1000),
      approved = True\<rparr>"

text \<open>
  Two clues as \<^verbatim>\<open>getStoredClues\<close> reloads them, with equal scores: the first was
  created at time 1000, the second at time 2000.
\<close>

definition example_stored_clue_1 :: CommunityClue where
  "example_stored_clue_1 =
     \<lparr>clue_id = ''s1'', clue_text = utf16 ''it rhymes with llama'', author = ''u5'',
      upvotes = 1, modBoost = 0, createdAt = Iso_string 1000, approved = True\<rparr>"

definition example_stored_clue_2 :: CommunityClue where
  "example_stored_clue_2 =
     \<lparr>clue_id = ''s2'', clue_text = utf16 ''what goes around comes around'', author = ''u6'',
      upvotes = 1, modBoost = 0, createdAt = Iso_string 2000, approved = True\<rparr>"

subsection \<open>Session state (useGameStore)\<close>

text \<open>
  The records of \<^verbatim>\<open>types/index.ts\<close> that \<^verbatim>\<open>submitGuess\<close> reads or writes. Of the
  puzzle only the fields of the bank are kept; the leaderboard of the game state is left
  out. Time stamps are time values.
\<close>

record Puzzle =
  puzzle_id :: string
  answer :: jsstring
  category :: string
  title :: string
  hints :: "string list"
  subredditTags :: "string list"

record Guess =
  guess_text :: jsstring
  guess_timestamp :: int
  guess_hintsUsed :: int
  guess_correct :: bool

record PlayerDailyState =
  guesses :: "Guess list"
  hintsUnlocked :: int
  score :: int
  completed :: bool
  timeStarted :: date
  timeCompleted :: "int option"
  streak :: int

record DailyGameState =
  game_dayKey :: string
  game_puzzle :: Puzzle
  playerState :: PlayerDailyState
  communityClues :: "CommunityClue list"
  game_timestamp :: int

text \<open>
  The item \<^verbatim>\<open>threadpulse.streak\<close> of \<^verbatim>\<open>localStorage\<close>, parsed; \<open>None\<close> when the item is
  absent or unreadable.
\<close>

record StreakRecord =
  lastSolvedDay :: "string option"
  streakDays :: int

text \<open>
  The state that the hook owns: the React states \<^verbatim>\<open>currentGame\<close> and \<^verbatim>\<open>error\<close>, and
  the stored streak. \<open>storageWritable\<close> says whether \<^verbatim>\<open>localStorage.setItem\<close> succeeds.
\<close>

record Session =
  currentGame :: "DailyGameState option"
  error :: "string option"
  streakStorage :: "StreakRecord option"
  storageWritable :: bool

definition MAX_GUESSES :: int where
  "MAX_GUESSES = 6"

text \<open>
  \<^verbatim>\<open>
  function getStreakState() {
      try {
          const raw = localStorage.getItem(STORAGE_KEYS.streak);
          if (!raw) return { lastSolvedDay: null, streakDays: 0 };
          const parsed = JSON.parse(raw);
          return { lastSolvedDay: ..., streakDays: Number(parsed.streakDays || 0) };
      } catch { return { lastSolvedDay: null, streakDays: 0 }; }
  }
  \<close>
\<close>

definition getStreakState :: "Session \<Rightarrow> StreakRecord" where
  "getStreakState st =
     (case streakStorage st of
        None \<Rightarrow> \<lparr>lastSolvedDay = None, streakDays = 0\<rparr>
      | Some r \<Rightarrow> r)"

text \<open>
  The day number of a calendar date, the inverse of \<open>civil_from_days\<close>, and the parse of
  \<^verbatim>\<open>`${dayKey}T00:00:00Z`\<close>: four digits, two digits and two digits that name a
  calendar date give midnight UTC of that date; any other string is taken to give the
  invalid date.
\<close>

definition days_from_civil :: "int \<Rightarrow> int \<Rightarrow> int \<Rightarrow> int" where
  "days_from_civil y0 m d =
     (let y = (if m \<le> 2 then y0 - 1 else y0);
          era = y div 400;
          yoe = y mod 400;
          doy = (153 * (if m > 2 then m - 3 else m + 9) + 2) div 5 + d - 1;
          doe = yoe * 365 + yoe div 4 - yoe div 100 + doy
      in era * 146097 + doe - 719468)"

definition DaysInMonth :: "int \<Rightarrow> int \<Rightarrow> int" where
  "DaysInMonth y m =
     (if m = 2 then (if y mod 4 = 0 \<and> (y mod 100 \<noteq> 0 \<or> y mod 400 = 0) then 29 else 28)
      else if m = 4 \<or> m = 6 \<or> m = 9 \<or> m = 11 then 30 else 31)"

definition is_digit :: "char \<Rightarrow> bool" where
  "is_digit c = (let n = (of_char c :: nat) in 48 \<le> n \<and> n \<le> 57)"

definition number_of_digits :: "string \<Rightarrow> int" where
  "number_of_digits s = foldl (\<lambda>acc c. acc * 10 + (int (of_char c) - 48)) 0 s"

definition parse_utc_midnight :: "string \<Rightarrow> date" where
  "parse_utc_midnight k =
     (if length k = 10 \<and> k ! 4 = CHR ''-'' \<and> k ! 7 = CHR ''-''
         \<and> list_all is_digit (take 4 k @ take 2 (drop 5 k) @ take 2 (drop 8 k))
      then
        let y = number_of_digits (take 4 k);
            m = number_of_digits (take 2 (drop 5 k));
            d = number_of_digits (take 2 (drop 8 k))
        in if 1 \<le> m \<and> m \<le> 12 \<and> 1 \<le> d \<and> d \<le> DaysInMonth y m
           then Time_Value (days_from_civil y m d * msPerDay)
           else Invalid_Date
      else Invalid_Date)"

text \<open>
  \<^verbatim>\<open>
  function shiftUtcDay(dayKey: string, days: number): string {
      const d = new Date(`${dayKey}T00:00:00Z`);
      d.setUTCDate(d.getUTCDate() + days);
      return toUtcDayKey(d);
  }
  \<close>
  At midnight, setting the day of the month to itself plus \<open>days\<close> moves the time value by
  \<open>days\<close> whole days; the invalid date stays invalid.
\<close>

definition shiftUtcDay :: "string \<Rightarrow> int \<Rightarrow> string" where
  "shiftUtcDay dk days =
     toUtcDayKey
       (case parse_utc_midnight dk of
          Invalid_Date \<Rightarrow> Invalid_Date
        | Time_Value t \<Rightarrow> Time_Value (t + days * msPerDay))"

text \<open>
  \<^verbatim>\<open>
  function updateStreak(dayKey: string): number {
      const streak = getStreakState();
      if (streak.lastSolvedDay === dayKey) return streak.streakDays;
      const yesterday = shiftUtcDay(dayKey, -1);
      const next = {
          lastSolvedDay: dayKey,
          streakDays: streak.lastSolvedDay === yesterday ? streak.streakDays + 1 : 1
      };
      try { localStorage.setItem(STORAGE_KEYS.streak, JSON.stringify(next)); } catch { }
      return next.streakDays;
  }
  \<close>
\<close>

definition updateStreak :: "string \<Rightarrow> Session \<Rightarrow> int \<times> Session" where
  "updateStreak dk st =
     (let old = getStreakState st in
      if lastSolvedDay old = Some dk then (streakDays old, st)
      else
        let yesterday = shiftUtcDay dk (- 1);
            next = \<lparr>lastSolvedDay = Some dk,
                    streakDays = (if lastSolvedDay old = Some yesterday
                                  then streakDays old + 1 else 1)\<rparr>
        in (streakDays next,
            if storageWritable st then st\<lparr>streakStorage := Some next\<rparr> else st))"

text \<open>
  \<^verbatim>\<open>
  const submitGuess = useCallback(async (guess: string) => {
      if (!currentGame || currentGame.playerState.completed) return false;
      if (currentGame.playerState.guesses.length >= MAX_GUESSES) {
          setError("No guesses remaining for today.");
          return false;
      }
      const normalizedGuess = guess.toLowerCase().replace(/[^a-z0-9]/g, "").trim();
      const alreadyTried = currentGame.playerState.guesses.some(
          (item) => item.text.toLowerCase().replace(/[^a-z0-9]/g, "").trim() === normalizedGuess);
      if (alreadyTried) {
          setError("You already tried that guess.");
          return false;
      }
      const evaluation = evaluateGuess({ guess, answer: currentGame.puzzle.answer });
      const startedAt = new Date(currentGame.playerState.timeStarted);
      const timeSeconds = Number.isNaN(startedAt.getTime()) ? 0
          : Math.max(1, Math.round((Date.now() - startedAt.getTime()) / 1000));
      const nextScore = computeScore({ correct: evaluation.correct,
          hintsUsed: currentGame.playerState.hintsUnlocked, timeSeconds,
          streakDays: currentGame.playerState.streak });
      const newGuess = { text: guess, timestamp: new Date(),
          hintsUsed: currentGame.playerState.hintsUnlocked, correct: evaluation.correct };
      const nextStreak = evaluation.correct ? updateStreak(currentGame.dayKey)
          : currentGame.playerState.streak;
      setCurrentGame({ ...currentGame, playerState: { ...currentGame.playerState,
          guesses: [...currentGame.playerState.guesses, newGuess],
          completed: evaluation.correct, score: nextScore, streak: nextStreak,
          timeCompleted: evaluation.correct ? new Date() : currentGame.playerState.timeCompleted } });
      if (evaluation.correct) setError(null);
      else if (currentGame.playerState.guesses.length + 1 >= MAX_GUESSES)
          setError("Round complete. Try again on the next daily puzzle.");
      else setError(`Not correct yet. ${MAX_GUESSES - (guesses.length + 1)} guesses left.`);
      return evaluation.correct;
  }, [currentGame]);
  \<close>
  The call takes the session and returns the result with the session after the state
  setters have taken effect. The clock is read three times (\<^verbatim>\<open>Date.now()\<close> and two
  \<^verbatim>\<open>new Date()\<close>); the readings are the arguments \<open>now1\<close>, \<open>now2\<close>, \<open>now3\<close>. On
  integers, \<^verbatim>\<open>Math.round(x / 1000)\<close> is \<open>(x + 500) div 1000\<close>.
\<close>

definition submitGuess :: "int \<Rightarrow> int \<Rightarrow> int \<Rightarrow> jsstring \<Rightarrow> Session \<Rightarrow> bool \<times> Session" where
  "submitGuess now1 now2 now3 guess st =
     (case currentGame st of
        None \<Rightarrow> (False, st)
      | Some game \<Rightarrow>
          let ps = playerState game in
          if completed ps then (False, st)
          else if int (length (guesses ps)) \<ge> MAX_GUESSES
          then (False, st\<lparr>error := Some ''No guesses remaining for today.''\<rparr>)
          else
            let normalizedGuess = trim (replace_non_az09 (toLowerCase guess));
                alreadyTried =
                  list_ex (\<lambda>item. trim (replace_non_az09 (toLowerCase (guess_text item)))
                                     = normalizedGuess) (guesses ps)
            in
            if alreadyTried
            then (False, st\<lparr>error := Some ''You already tried that guess.''\<rparr>)
            else
              let evaluation = evaluateGuess guess (answer (game_puzzle game));
                  timeSeconds =
                    (case timeStarted ps of
                       Invalid_Date \<Rightarrow> 0
                     | Time_Value startedAt \<Rightarrow> max 1 ((now1 - startedAt + 500) div 1000));
                  nextScore =
                    computeScore (correct evaluation) (hintsUnlocked ps) timeSeconds (streak ps);
                  newGuess =
                    \<lparr>guess_text = guess, guess_timestamp = now2,
                     guess_hintsUsed = hintsUnlocked ps, guess_correct = correct evaluation\<rparr>;
                  (nextStreak, st1) =
                    (if correct evaluation then updateStreak (game_dayKey game) st
                     else (streak ps, st));
                  game1 =
                    game\<lparr>playerState :=
                      ps\<lparr>guesses := guesses ps @ [newGuess],
                         completed := correct evaluation,
                         score := nextScore,
                         streak := nextStreak,
                         timeCompleted :=
                           (if correct evaluation then Some now3 else timeCompleted ps)\<rparr>\<rparr>;
                  err =
                    (if correct evaluation then None
                     else if int (length (guesses ps)) + 1 \<ge> MAX_GUESSES
                     then Some ''Round complete. Try again on the next daily puzzle.''
                     else Some (''Not correct yet. ''
                                @ string_of_int (MAX_GUESSES - (int (length (guesses ps)) + 1))
                                @ '' guesses left.''))
              in (correct evaluation, st1\<lparr>currentGame := Some game1, error := err\<rparr>))"

text \<open>
  A session at the start of 2026-02-04 on the first puzzle of the bank, and the session
  after the correct guess \<^verbatim>\<open>Wholesome\<close>, made 45 seconds later.
\<close>

definition example_puzzle :: Puzzle where
  "example_puzzle =
     \<lparr>puzzle_id = ''p001'', answer = utf16 ''wholesome'', category = ''community-vibe'',
      title = ''Faith in Humans'',
      hints = [''This post type usually gets people saying, I needed this today.''],
      subredditTags = [''r/HumansBeingBros'', ''r/wholesomememes'']\<rparr>"

definition example_fresh_session :: Session where
  "example_fresh_session =
     \<lparr>currentGame = Some
        \<lparr>game_dayKey = ''2026-02-04'', game_puzzle = example_puzzle,
         playerState =
           \<lparr>guesses = [], hintsUnlocked = 1, score = 0, completed = False,
            timeStarted = Time_Value 1770163200000, timeCompleted = None, streak = 0\<rparr>,
         communityClues = [], game_timestamp = 1770163200000\<rparr>,
      error = None, streakStorage = None, storageWritable = True\<rparr>"

definition example_solved_game :: DailyGameState where
  "example_solved_game =
     \<lparr>game_dayKey = ''2026-02-04'', game_puzzle = example_puzzle,
      playerState =
        \<lparr>guesses = [\<lparr>guess_text = utf16 ''Wholesome'', guess_timestamp = 1770163245000,
                     guess_hintsUsed = 1, guess_correct = True\<rparr>],
         hintsUnlocked = 1, score = 93, completed = True,
         timeStarted = Time_Value 1770163200000, timeCompleted = Some 1770163245000,
         streak = 1\<rparr>,
      communityClues = [], game_timestamp = 1770163200000\<rparr>"

definition example_solved_session :: Session where
  "example_solved_session =
     \<lparr>currentGame = Some example_solved_game,
      error = None,
      streakStorage = Some \<lparr>lastSolvedDay = Some ''2026-02-04'', streakDays = 1\<rparr>,
      storageWritable = True\<rparr>"

text \<open>The session after the wrong guess \<^verbatim>\<open>chaos\<close> instead.\<close>

definition example_missed_game :: DailyGameState where
  "example_missed_game =
     \<lparr>game_dayKey = ''2026-02-04'', game_puzzle = example_puzzle,
      playerState =
        \<lparr>guesses = [\<lparr>guess_text = utf16 ''chaos'', guess_timestamp = 1770163245000,
                     guess_hintsUsed = 1, guess_correct = False\<rparr>],
         hintsUnlocked = 1, score = 0, completed = False,
         timeStarted = Time_Value 1770163200000, timeCompleted = None, streak = 0\<rparr>,
      communityClues = [], game_timestamp = 1770163200000\<rparr>"

definition example_missed_session :: Session where
  "example_missed_session =
     \<lparr>currentGame = Some example_missed_game,
      error = Some ''Not correct yet. 5 guesses left.'',
      streakStorage = None, storageWritable = True\<rparr>"

section \<open>Properties\<close>

subsection \<open>Day seed\<close>

lemma word_of_int_imul:
  "(word_of_int (imul a b) :: 32 word) = word_of_int a * word_of_int b"
  by (simp add: imul_def)

lemma word_of_int_js_xor:
  "(word_of_int (js_xor a b) :: 32 word) = word_of_int a XOR word_of_int b"
  by (simp add: js_xor_def)

lemma fnv1a_spec_acc_bound:
  "acc < 2 ^ 32 \<Longrightarrow> fnv1a_spec_acc acc s < 2 ^ 32"
  by (induction s arbitrary: acc) simp_all

lemma word_of_nat_mod32:
  "(word_of_nat (x mod 2 ^ 32) :: 32 word) = word_of_nat x"
  by (simp add: word_unat_eq_iff unat_of_nat)

lemma uint_word_of_nat32:
  "n < 2 ^ 32 \<Longrightarrow> uint (word_of_nat n :: 32 word) = int n"
  by (simp add: uint_nat unat_of_nat)

lemma word_of_nat_fnv_step:
  "(word_of_nat (((acc XOR n) * 16777619) mod 2 ^ 32) :: 32 word)
     = (word_of_nat acc XOR word_of_nat n) * 16777619"
  unfolding word_of_nat_mod32 by (simp add: of_nat_xor_eq)

lemma daySeed_loop_refines:
  "(word_of_int hash :: 32 word) = word_of_nat acc \<Longrightarrow>
   (word_of_int (daySeed_loop hash s) :: 32 word) = word_of_nat (fnv1a_spec_acc acc s)"
proof (induction s arbitrary: hash acc)
  case Nil
  then show ?case by simp
next
  case (Cons c cs)
  have "(word_of_int (imul (js_xor hash (charCodeAt c)) 16777619) :: 32 word)
          = word_of_nat (((acc XOR of_char c) * 16777619) mod 2 ^ 32)"
    unfolding word_of_nat_fnv_step
    using Cons.prems
    by (simp add: word_of_int_imul word_of_int_js_xor charCodeAt_def)
  then show ?case
    using Cons.IH by simp
qed

text \<open>
  Claim C3. For every day-key string, \<open>daySeed\<close> is the 32-bit FNV-1a hash: the
  accumulator starts at 2166136261; each character in order is XORed in and the result
  multiplied by 16777619 modulo \<open>2 ^ 32\<close>; the result is an unsigned 32-bit integer.
\<close>

theorem daySeed_is_fnv1a:
  "daySeed k = int (fnv1a_spec k) \<and> 0 \<le> daySeed k \<and> daySeed k < 2 ^ 32"
proof -
  have start: "(word_of_int 2166136261 :: 32 word) = word_of_nat 2166136261"
    by simp
  have w: "(word_of_int (daySeed_loop 2166136261 k) :: 32 word)
             = word_of_nat (fnv1a_spec k)"
    unfolding fnv1a_spec_def by (rule daySeed_loop_refines [OF start])
  have b: "fnv1a_spec k < 2 ^ 32"
    unfolding fnv1a_spec_def by (rule fnv1a_spec_acc_bound) simp
  have "daySeed k = uint (word_of_nat (fnv1a_spec k) :: 32 word)"
    by (simp add: daySeed_def js_ushr_def w)
  also have "\<dots> = int (fnv1a_spec k)"
    using b by (rule uint_word_of_nat32)
  finally have eq: "daySeed k = int (fnv1a_spec k)" .
  show ?thesis
    using eq b by simp
qed

theorem daySeed_is_fnv1a_witness:
  "daySeed ''a'' = int (fnv1a_spec ''a'') \<and> fnv1a_spec ''a'' = 3826002220
   \<and> 0 \<le> daySeed ''a'' \<and> daySeed ''a'' < 2 ^ 32"
  using daySeed_is_fnv1a [of "''a''"] by (simp add: fnv1a_spec_def)

subsection \<open>Deterministic selector\<close>

lemma bit_length_upper: "n < 2 ^ bit_length n"
proof (induction n rule: bit_length.induct)
  case (1 n)
  show ?case
  proof (cases "n \<le> 0")
    case True
    then show ?thesis by (simp add: bit_length.simps [of n])
  next
    case False
    from 1 [OF False] have "n div 2 < 2 ^ bit_length (n div 2)" .
    then have "n < 2 * 2 ^ bit_length (n div 2)" by linarith
    then show ?thesis using False by (simp add: bit_length.simps [of n])
  qed
qed

lemma bit_length_lower: "0 < n \<Longrightarrow> 2 ^ (bit_length n - 1) \<le> n"
proof (induction n rule: bit_length.induct)
  case (1 n)
  then have n0: "\<not> n \<le> 0" by simp
  have bl: "bit_length n - 1 = bit_length (n div 2)"
    using n0 by (simp add: bit_length.simps [of n])
  show ?case
  proof (cases "n div 2 \<le> 0")
    case True
    then have "bit_length (n div 2) = 0" by (simp add: bit_length.simps [of "n div 2"])
    then show ?thesis using n0 bl by simp
  next
    case False
    then have "2 ^ (bit_length (n div 2) - 1) \<le> n div 2"
      using 1(1) [OF n0] by simp
    moreover have "bit_length (n div 2) = Suc (bit_length (n div 2) - 1)"
      using False by (simp add: bit_length.simps [of "n div 2"])
    ultimately have "(2::int) ^ bit_length (n div 2) \<le> 2 * (n div 2)"
      by (metis mult_left_mono power_Suc zero_le_numeral)
    then show ?thesis using bl by simp
  qed
qed

lemma bit_length_gt_53: "2 ^ 53 \<le> N \<Longrightarrow> 53 < bit_length N"
proof -
  assume a: "2 ^ 53 \<le> N"
  have "N < 2 ^ bit_length N" by (rule bit_length_upper)
  with a have "(2::int) ^ 53 < 2 ^ bit_length N" by linarith
  then show ?thesis by (simp only: power_strict_increasing_iff)
qed

lemma round53_le:
  assumes "2 ^ 53 \<le> N"
  shows "round53 N \<le> N + 2 ^ (bit_length N - 54)"
proof -
  define e where "e = bit_length N - 53"
  define q where "q = N div 2 ^ e"
  define r where "r = N mod 2 ^ e"
  have "53 < bit_length N" using assms by (rule bit_length_gt_53)
  then have e1: "1 \<le> e" and em: "e - 1 = bit_length N - 54" by (simp_all add: e_def)
  have N: "N = q * 2 ^ e + r" unfolding q_def r_def by (rule div_mult_mod_eq [symmetric])
  have pow: "(2::int) ^ e = 2 * 2 ^ (e - 1)"
    using e1 by (cases e) simp_all
  have r53: "round53 N = (if r > 2 ^ (e - 1) \<or> (r = 2 ^ (e - 1) \<and> odd q) then q + 1 else q) * 2 ^ e"
    using assms by (simp add: round53_def Let_def e_def q_def r_def)
  have r0: "0 \<le> r" by (simp add: r_def)
  show ?thesis
  proof (cases "r > 2 ^ (e - 1) \<or> (r = 2 ^ (e - 1) \<and> odd q)")
    case True
    then have "2 ^ (e - 1) \<le> r" by auto
    moreover have "round53 N = q * 2 ^ e + 2 ^ e" using True r53 by (simp add: algebra_simps)
    ultimately show ?thesis using N pow em by simp
  next
    case False
    then have "round53 N = q * 2 ^ e" using r53 by simp
    then show ?thesis using N r0 by simp
  qed
qed

lemma round53_nonneg: "0 \<le> N \<Longrightarrow> 0 \<le> round53 N"
  by (simp add: round53_def Let_def pos_imp_zdiv_nonneg_iff)

lemma round53_below:
  assumes n: "0 < n" and N: "N + n \<le> n * 2 ^ 32"
  shows "round53 N < n * 2 ^ 32"
proof (cases "N < 2 ^ 53")
  case True
  then show ?thesis using n N by (simp add: round53_def)
next
  case False
  then have big: "2 ^ 53 \<le> N" by simp
  then have N0: "0 < N" by (simp add: less_le_trans [of 0 "2 ^ 53"])
  have bl: "53 < bit_length N" using big by (rule bit_length_gt_53)
  define k where "k = bit_length N - 54"
  have blk: "bit_length N - 1 = k + 53" using bl by (simp add: k_def)
  have "2 ^ (k + 53) \<le> N" using bit_length_lower [OF N0] blk by simp
  also have "N < n * 2 ^ 32" using n N by linarith
  finally have "(2::int) ^ k * 2 ^ 53 < n * 2 ^ 32" by (simp add: power_add)
  then have "((2::int) ^ k * 2 ^ 21) * 2 ^ 32 < n * 2 ^ 32" by simp
  then have "(2::int) ^ k * 2 ^ 21 < n" by (simp only: mult_less_cancel_right) simp
  moreover have "(2::int) ^ k \<le> 2 ^ k * 2 ^ 21" by simp
  ultimately have "(2::int) ^ k < n" by linarith
  then have "N + 2 ^ k < n * 2 ^ 32" using N by linarith
  with round53_le [OF big] show ?thesis by (simp add: k_def)
qed

lemma floor_draw_times_range:
  assumes u: "0 \<le> u" "u < 2 ^ 32" and n: "0 < n"
  shows "0 \<le> floor_draw_times u n \<and> floor_draw_times u n < int n"
proof -
  have "u * int n \<le> (2 ^ 32 - 1) * int n"
    using u n by (simp add: mult_right_mono)
  then have le: "u * int n + int n \<le> int n * 2 ^ 32"
    by (simp add: algebra_simps)
  have "round53 (u * int n) < int n * 2 ^ 32"
    using n le by (intro round53_below) simp_all
  then have up: "round53 (u * int n) div 2 ^ 32 < int n"
    by (simp add: div_less_iff_less_mult algebra_simps) 
  have "0 \<le> round53 (u * int n)"
    using u n by (intro round53_nonneg) simp
  then have "0 \<le> round53 (u * int n) div 2 ^ 32"
    by (simp add: pos_imp_zdiv_nonneg_iff)
  then show ?thesis using up by (simp add: floor_draw_times_def)
qed

lemma js_ushr_range: "0 \<le> js_ushr a k \<and> js_ushr a k < 2 ^ 32"
proof -
  have "uint (drop_bit (k mod 32) (word_of_int a :: 32 word)) < 2 ^ LENGTH(32)"
    by (rule uint_lt2p)
  then show ?thesis by (simp add: js_ushr_def)
qed

lemma mulberry32_call_range:
  "0 \<le> fst (mulberry32_call t) \<and> fst (mulberry32_call t) < 2 ^ 32"
  using js_ushr_range by (simp add: mulberry32_call_def Let_def)

lemma draw_value_range:
  "0 \<le> u \<Longrightarrow> u < 2 ^ 32 \<Longrightarrow> 0 \<le> draw_value u \<and> draw_value u < 1"
  by (simp add: draw_value_def)

lemma floor_draw_times_exact:
  assumes "0 \<le> u" "u * int n < 2 ^ 53"
  shows "floor_draw_times u n = \<lfloor>draw_value u * of_nat n\<rfloor>"
proof -
  have "floor_draw_times u n = (u * int n) div 2 ^ 32"
    using assms by (simp add: floor_draw_times_def round53_def)
  also have "\<dots> = \<lfloor>(of_int (u * int n) :: rat) / of_int (2 ^ 32)\<rfloor>"
    by (simp only: floor_divide_of_int_eq)
  also have "\<dots> = \<lfloor>draw_value u * of_nat n\<rfloor>"
    by (simp add: draw_value_def)
  finally show ?thesis .
qed

lemma js_nth_in_range:
  "0 \<le> i \<Longrightarrow> i < int (length xs) \<Longrightarrow> js_nth xs i = Some (xs ! nat i) \<and> xs ! nat i \<in> set xs"
  by (simp add: js_nth_def)

lemma pickDailyPuzzle_nonempty:
  assumes "bank \<noteq> []"
  shows "pickDailyPuzzle d bank =
           Inr \<lparr>dayKey = toUtcDayKey d,
                seed = daySeed (toUtcDayKey d),
                index = floor_draw_times
                          (fst (mulberry32_call (mulberry32 (daySeed (toUtcDayKey d)))))
                          (length bank),
                puzzle = js_nth bank
                          (floor_draw_times
                             (fst (mulberry32_call (mulberry32 (daySeed (toUtcDayKey d)))))
                             (length bank))\<rparr>"
  using assms by (simp add: pickDailyPuzzle_def Let_def case_prod_beta)

text \<open>
  Two instants of one UTC day have the same key; the last second of 2026-02-04 and the
  first of 2026-02-05 have different keys; and the selection for 2026-02-04 in a bank of
  35 puzzles is the index 1.
\<close>

lemma toUtcDayKey_same_day:
  "t1 div msPerDay = t2 div msPerDay \<Longrightarrow>
   toUtcDayKey (Time_Value t1) = toUtcDayKey (Time_Value t2)"
  by (simp add: getUTCFullYear_def getUTCMonth_def getUTCDate_def)

lemma toUtcDayKey_day_boundary:
  "toUtcDayKey (Time_Value 1770249599000) = ''2026-02-04''
   \<and> toUtcDayKey (Time_Value 1770249601000) = ''2026-02-05''"
  by code_simp

lemma pickDailyPuzzle_2026_02_04:
  "pickDailyPuzzle (Time_Value 1770163200000) (replicate 35 ())
     = Inr \<lparr>dayKey = ''2026-02-04'', seed = 3010730383, index = 1, puzzle = Some ()\<rparr>"
  by code_simp

text \<open>
  Claim C1. Daily selection is deterministic: for a fixed non-empty bank, two instants with
  the same UTC day key make \<open>pickDailyPuzzle\<close> succeed with the same day key, seed,
  index and puzzle.
\<close>

theorem pickDailyPuzzle_deterministic:
  assumes "bank \<noteq> []" and "toUtcDayKey d1 = toUtcDayKey d2"
  shows "\<exists>r1 r2. pickDailyPuzzle d1 bank = Inr r1 \<and> pickDailyPuzzle d2 bank = Inr r2
           \<and> seed r1 = seed r2 \<and> index r1 = index r2 \<and> puzzle r1 = puzzle r2
           \<and> dayKey r1 = dayKey r2"
  using assms by (simp add: pickDailyPuzzle_nonempty)

theorem pickDailyPuzzle_deterministic_witness:
  "[''p001'', ''p002'', ''p003''] \<noteq> []
   \<and> toUtcDayKey (Time_Value 1770163200000) = toUtcDayKey (Time_Value 1770249599000)
   \<and> (\<exists>r1 r2. pickDailyPuzzle (Time_Value 1770163200000) [''p001'', ''p002'', ''p003''] = Inr r1
          \<and> pickDailyPuzzle (Time_Value 1770249599000) [''p001'', ''p002'', ''p003''] = Inr r2
          \<and> seed r1 = seed r2 \<and> index r1 = index r2 \<and> puzzle r1 = puzzle r2
          \<and> dayKey r1 = dayKey r2)"
proof -
  have b: "[''p001'', ''p002'', ''p003''] \<noteq> []"
    by simp
  have k: "toUtcDayKey (Time_Value 1770163200000) = toUtcDayKey (Time_Value 1770249599000)"
    by code_simp
  show ?thesis
    using b k pickDailyPuzzle_deterministic [OF b k] by blast
qed

text \<open>
  Claim C2. \<open>pickDailyPuzzle\<close> fails exactly when the bank is empty. For a non-empty bank
  it succeeds, the first Mulberry32 draw lies in \<open>[0, 1)\<close>, the index satisfies
  \<open>0 \<le> index < length bank\<close>, and the puzzle returned is the element of the bank at
  that index.
\<close>

theorem pickDailyPuzzle_fails_iff_empty:
  "(isl (pickDailyPuzzle d bank) \<longleftrightarrow> bank = [])
   \<and> 0 \<le> first_draw d \<and> first_draw d < 1
   \<and> (bank \<noteq> [] \<longrightarrow>
        (\<exists>r p. pickDailyPuzzle d bank = Inr r
           \<and> 0 \<le> index r \<and> index r < int (length bank)
           \<and> puzzle r = Some p \<and> p = bank ! nat (index r) \<and> p \<in> set bank))"
proof -
  define u where "u = fst (mulberry32_call (mulberry32 (daySeed (toUtcDayKey d))))"
  have u: "0 \<le> u" "u < 2 ^ 32"
    using mulberry32_call_range [of "mulberry32 (daySeed (toUtcDayKey d))"]
    by (simp_all add: u_def)
  have fails: "isl (pickDailyPuzzle d bank) \<longleftrightarrow> bank = []"
    by (simp add: pickDailyPuzzle_def Let_def case_prod_beta)
  have draw: "0 \<le> first_draw d \<and> first_draw d < 1"
    using draw_value_range [OF u] by (simp add: first_draw_def u_def)
  have ok: "\<exists>r p. pickDailyPuzzle d bank = Inr r
           \<and> 0 \<le> index r \<and> index r < int (length bank)
           \<and> puzzle r = Some p \<and> p = bank ! nat (index r) \<and> p \<in> set bank"
    if ne: "bank \<noteq> []"
  proof -
    have len: "0 < length bank"
      using ne by simp
    have i: "0 \<le> floor_draw_times u (length bank)"
            "floor_draw_times u (length bank) < int (length bank)"
      using floor_draw_times_range [OF u len] by simp_all
    show ?thesis
      using js_nth_in_range [OF i] i
      by (simp add: pickDailyPuzzle_nonempty [OF ne] u_def)
  qed
  show ?thesis
    using fails draw ok by blast
qed

theorem pickDailyPuzzle_fails_iff_empty_witness:
  "isl (pickDailyPuzzle (Time_Value 1770163200000) ([] :: string list))
   \<and> \<not> isl (pickDailyPuzzle (Time_Value 1770163200000) [''p001'', ''p002'', ''p003''])
   \<and> (\<exists>r p. pickDailyPuzzle (Time_Value 1770163200000) [''p001'', ''p002'', ''p003''] = Inr r
         \<and> 0 \<le> index r \<and> index r < 3 \<and> puzzle r = Some p
         \<and> p \<in> set [''p001'', ''p002'', ''p003''])"
  using pickDailyPuzzle_fails_iff_empty [of "Time_Value 1770163200000" "[] :: string list"]
        pickDailyPuzzle_fails_iff_empty
          [of "Time_Value 1770163200000" "[''p001'', ''p002'', ''p003'']"]
  by auto

subsection \<open>Scorer\<close>

text \<open>
  Claim C4. With \<open>correct\<close> true and \<open>hintsUsed \<ge> 1\<close>, for all integers
  \<open>timeSeconds\<close> and \<open>streakDays\<close>, the score is
  \<open>max 5 (100 - max 0 (hintsUsed - 1) * 15 - min 35 (max 0 timeSeconds div 6)
    + min 25 (max 0 streakDays div 2))\<close>; with \<open>correct\<close> false it is 0; in every case the
  score is 0 or lies between 5 and 125.
\<close>

theorem computeScore_formula_and_range:
  "(1 \<le> hints_used \<longrightarrow>
      computeScore True hints_used time_seconds streak_days
        = max 5 (100 - max 0 (hints_used - 1) * 15 - min 35 (max 0 time_seconds div 6)
                 + min 25 (max 0 streak_days div 2)))
   \<and> computeScore False hints_used time_seconds streak_days = 0
   \<and> (computeScore c hints_used time_seconds streak_days = 0
        \<or> (5 \<le> computeScore c hints_used time_seconds streak_days
            \<and> computeScore c hints_used time_seconds streak_days \<le> 125))"
proof -
  define hp where "hp = max 0 (hints_used - 1) * 15"
  define tp where "tp = min 35 (max 0 time_seconds div 6)"
  define sb where "sb = min 25 (max 0 streak_days div 2)"
  have bounds: "0 \<le> hp" "0 \<le> tp" "sb \<le> 25"
    by (simp_all add: hp_def tp_def sb_def)
  have t: "computeScore True hints_used time_seconds streak_days = max 5 (100 - hp - tp + sb)"
    by (simp add: computeScore_def Let_def hp_def tp_def sb_def)
  have f: "computeScore False hints_used time_seconds streak_days = 0"
    by (simp add: computeScore_def)
  have r: "5 \<le> max 5 (100 - hp - tp + sb) \<and> max 5 (100 - hp - tp + sb) \<le> 125"
    using bounds by linarith
  have range: "computeScore c hints_used time_seconds streak_days = 0
        \<or> (5 \<le> computeScore c hints_used time_seconds streak_days
            \<and> computeScore c hints_used time_seconds streak_days \<le> 125)"
    using t f r by (cases c) simp_all
  show ?thesis
    using t f range unfolding hp_def tp_def sb_def by blast
qed

theorem computeScore_formula_and_range_witness:
  "(1::int) \<le> 2 \<and> computeScore True 2 45 5 = 80 \<and> computeScore False 2 45 5 = 0
   \<and> computeScore True 1 0 0 = 100 \<and> computeScore True 1 0 100 = 125"
  using computeScore_formula_and_range [of 2 45 5 True]
        computeScore_formula_and_range [of 1 0 0 True]
        computeScore_formula_and_range [of 1 0 100 True]
  by simp

text \<open>
  Claim C5 states that \<open>computeScore\<close> at \<open>correct = true\<close>, \<open>hintsUsed = 3\<close>,
  \<open>timeSeconds = 1000\<close>, \<open>streakDays = 0\<close> is 5. The code gives
  \<open>100 - 30 - 35 + 0 = 35\<close>: the floor of 5 is not reached.
\<close>

theorem computeScore_3_1000_0_not_5:
  "computeScore True 3 1000 0 \<noteq> 5"
  by (simp add: computeScore_def)

text \<open>
  Claim C5, amended. \<open>computeScore\<close> at \<open>correct = true\<close>, \<open>hintsUsed = 3\<close>,
  \<open>timeSeconds = 1000\<close>, \<open>streakDays = 0\<close> is exactly 35.
\<close>

theorem computeScore_3_1000_0:
  "computeScore True 3 1000 0 = 35"
  by (simp add: computeScore_def)


subsection \<open>Guess evaluator\<close>

lemma lower_ranges_ok: "list_all entry_ok lower_ranges"
  by code_simp

lemma lookup_lower_cases:
  assumes "list_all entry_ok rs" and "0 \<le> c" and "c < 1114112"
  shows "0 \<le> lookup_lower rs c \<and> lookup_lower rs c < 1114112
         \<and> (lookup_lower rs c = c \<or> lookup_lower rs c > 122
              \<or> (65 \<le> c \<and> c \<le> 90 \<and> lookup_lower rs c = c + 32)
              \<or> (c = 8490 \<and> lookup_lower rs c = 107))"
  using assms
proof (induction rs)
  case Nil
  then show ?case by simp
next
  case (Cons e rs)
  obtain lo hi step tgt where e: "e = (lo, hi, step, tgt)"
    by (cases e) auto
  show ?case
  proof (cases "lo \<le> c \<and> c \<le> hi \<and> (c - lo) mod step = 0")
    case True
    then have l: "lookup_lower (e # rs) c = tgt + (c - lo)"
      by (simp add: e)
    have ok: "0 \<le> lo" "lo \<le> hi" "tgt + (hi - lo) < 1114112"
      "tgt > 122 \<or> (lo = 65 \<and> hi = 90 \<and> tgt = 97) \<or> (lo = 8490 \<and> hi = 8490 \<and> tgt = 107)"
      using Cons.prems(1) by (simp_all add: e entry_ok_def)
    show ?thesis
      unfolding l using ok True by auto
  next
    case False
    then have "lookup_lower (e # rs) c = lookup_lower rs c"
      by (auto simp: e)
    then show ?thesis
      using Cons by simp
  qed
qed

lemma lookup_lower_AZ:
  "65 \<le> c \<Longrightarrow> c \<le> 90 \<Longrightarrow> lookup_lower lower_ranges c = c + 32"
  by (simp add: lower_ranges_def)

lemma lookup_lower_below:
  "list_all (\<lambda>e. c < fst e) rs \<Longrightarrow> lookup_lower rs c = c"
  by (induction rs) auto

lemma lower_ranges_tail: "list_all (\<lambda>e. 192 \<le> fst e) (tl lower_ranges)"
  by code_simp

lemma lookup_lower_ascii:
  assumes "c < 192" and "\<not> (65 \<le> c \<and> c \<le> 90)"
  shows "lookup_lower lower_ranges c = c"
proof -
  have hd: "lower_ranges = (65, 90, 1, 97) # tl lower_ranges"
    by (simp add: lower_ranges_def)
  have "list_all (\<lambda>e. c < fst e) (tl lower_ranges)"
    using lower_ranges_tail assms(1) by (auto simp: list_all_iff)
  then have "lookup_lower (tl lower_ranges) c = c"
    by (rule lookup_lower_below)
  then show ?thesis
    using assms(2) by (subst hd) auto
qed

text \<open>The table is not searched for a code point below U+00C0.\<close>

lemma lower_code_point_code [code]:
  "lower_code_point c =
     (if c < 192 then [if 65 \<le> c \<and> c \<le> 90 then c + 32 else c]
      else if c = 304 then [105, 775]
      else [lookup_lower lower_ranges c])"
  using lookup_lower_AZ [of c] lookup_lower_ascii [of c]
  by (auto simp: lower_code_point_def)

lemma lower_code_point_cases:
  assumes "0 \<le> c" and "c < 1114112" and "t \<in> set (lower_code_point c)"
  shows "0 \<le> t \<and> t < 1114112 \<and> \<not> (65 \<le> t \<and> t \<le> 90)
         \<and> (t \<le> 122 \<longrightarrow> (t = c \<or> (65 \<le> c \<and> c \<le> 90) \<or> c = 8490 \<or> c = 304))"
proof (cases "c = 304")
  case True
  then show ?thesis
    using assms(3) by (auto simp: lower_code_point_def)
next
  case False
  then have t: "t = lookup_lower lower_ranges c"
    using assms(3) by (simp add: lower_code_point_def)
  show ?thesis
    using lookup_lower_cases [OF lower_ranges_ok assms(1,2)] lookup_lower_AZ [of c]
    unfolding t by auto
qed

lemma uint_word16: "0 \<le> t \<Longrightarrow> t < 65536 \<Longrightarrow> uint (word_of_int t :: 16 word) = t"
  by (simp add: uint_word_of_int take_bit_eq_mod)

lemma code_units_cases:
  assumes "0 \<le> t" and "t < 1114112" and "u \<in> set (code_units t)"
  shows "(t < 65536 \<and> uint u = t) \<or> 55296 \<le> uint u"
proof (cases "t < 65536")
  case True
  then show ?thesis
    using assms by (simp add: code_units_def uint_word16)
next
  case False
  define x where "x = t - 65536"
  have x: "0 \<le> x" "x < 1048576"
    using False assms(2) by (simp_all add: x_def)
  have d: "0 \<le> x div 1024" "x div 1024 < 1024" "0 \<le> x mod 1024" "x mod 1024 < 1024"
    using x by (simp_all add: pos_imp_zdiv_nonneg_iff div_less_iff_less_mult)
  have "uint (word_of_int (55296 + x div 1024) :: 16 word) = 55296 + x div 1024"
    using d by (intro uint_word16) simp_all
  moreover have "uint (word_of_int (56320 + x mod 1024) :: 16 word) = 56320 + x mod 1024"
    using d by (intro uint_word16) simp_all
  ultimately show ?thesis
    using False assms(3) d by (auto simp: code_units_def x_def)
qed

lemma code_points_cases:
  "c \<in> set (code_points s) \<Longrightarrow>
   0 \<le> c \<and> c < 1114112 \<and> (c < 55296 \<longrightarrow> (\<exists>u \<in> set s. uint u = c))"
proof (induction s arbitrary: c rule: code_points.induct)
  case 1
  then show ?case by simp
next
  case (2 u)
  have "uint u < 2 ^ LENGTH(16)" by (rule uint_lt2p)
  then show ?case using 2 by auto
next
  case (3 u v r)
  have ub: "uint u < 65536" "uint v < 65536" "0 \<le> uint u"
    using uint_lt2p [of u] uint_lt2p [of v] by simp_all
  show ?case
  proof (cases "is_high_surrogate u \<and> is_low_surrogate v")
    case True
    then consider "c = 65536 + (uint u - 55296) * 1024 + (uint v - 56320)" | "c \<in> set (code_points r)"
      using 3(3) by auto
    then show ?thesis
    proof cases
      case 1
      then show ?thesis
        using True by (auto simp: is_high_surrogate_def is_low_surrogate_def)
    next
      case 2
      then show ?thesis using 3(1) [OF True] by auto
    qed
  next
    case False
    then consider "c = uint u" | "c \<in> set (code_points (v # r))"
      using 3(3) by auto
    then show ?thesis
    proof cases
      case 1
      then show ?thesis using ub by auto
    next
      case 2
      then show ?thesis using 3(2) [OF False] by auto
    qed
  qed
qed

lemma toLowerCase_unit_cases:
  assumes "u \<in> set (toLowerCase s)"
  shows "\<not> (65 \<le> uint u \<and> uint u \<le> 90)
         \<and> (uint u \<le> 122 \<longrightarrow> (\<exists>v \<in> set s. uint v = uint u \<or> lowers_into_ascii v))"
proof -
  from assms obtain c t where c: "c \<in> set (code_points s)"
    and t: "t \<in> set (lower_code_point c)" and u: "u \<in> set (code_units t)"
    by (auto simp: toLowerCase_def)
  have cb: "0 \<le> c" "c < 1114112" "c < 55296 \<longrightarrow> (\<exists>v \<in> set s. uint v = c)"
    using code_points_cases [OF c] by simp_all
  have tb: "0 \<le> t" "t < 1114112" "\<not> (65 \<le> t \<and> t \<le> 90)"
    "t \<le> 122 \<longrightarrow> (t = c \<or> (65 \<le> c \<and> c \<le> 90) \<or> c = 8490 \<or> c = 304)"
    using lower_code_point_cases [OF cb(1,2) t] by simp_all
  have uc: "(t < 65536 \<and> uint u = t) \<or> 55296 \<le> uint u"
    using code_units_cases [OF tb(1,2) u] .
  have a: "\<not> (65 \<le> uint u \<and> uint u \<le> 90)"
    using uc tb(3) by auto
  have b: "\<exists>v \<in> set s. uint v = uint u \<or> lowers_into_ascii v" if le: "uint u \<le> 122"
  proof -
    have ut: "uint u = t" using uc le by auto
    then have "t = c \<or> (65 \<le> c \<and> c \<le> 90) \<or> c = 8490 \<or> c = 304"
      using tb(4) le by simp
    moreover have "c < 55296"
      using calculation ut le by auto
    then obtain v where v: "v \<in> set s" "uint v = c"
      using cb(3) by auto
    ultimately show ?thesis
      using ut by (auto simp: lowers_into_ascii_def intro!: bexI [of _ v])
  qed
  show ?thesis using a b by blast
qed

lemma toLowerCase_no_upper:
  "u \<in> set (toLowerCase s) \<Longrightarrow> is_az09 u \<longleftrightarrow> is_ascii_letter_or_digit u"
  using toLowerCase_unit_cases [of u s]
  by (auto simp: is_az09_def is_ascii_letter_or_digit_def)

lemma trim_no_space:
  assumes "\<forall>c\<in>set s. \<not> is_js_space c"
  shows "trim s = s"
proof -
  have d: "dropWhile is_js_space xs = xs" if "\<forall>c\<in>set xs. \<not> is_js_space c" for xs
    using that by (cases xs) simp_all
  show ?thesis
    using assms by (simp add: trim_def d)
qed

lemma is_az09_not_space: "is_az09 c \<Longrightarrow> \<not> is_js_space c"
  by (auto simp: is_az09_def is_js_space_def Let_def)

lemma normalizeText_spec: "normalizeText s = normalize_spec s"
proof -
  have "trim (replace_non_az09 (toLowerCase s)) = replace_non_az09 (toLowerCase s)"
    by (rule trim_no_space) (simp add: replace_non_az09_def is_az09_not_space)
  also have "\<dots> = normalize_spec s"
    unfolding replace_non_az09_def normalize_spec_def
    by (rule filter_cong) (simp_all add: toLowerCase_no_upper)
  finally show ?thesis
    by (simp add: normalizeText_def)
qed

lemma normalize_spec_no_source:
  assumes "\<forall>v\<in>set s. \<not> lowers_into_ascii v"
  shows "normalize_spec s = []"
proof -
  have "\<not> is_ascii_letter_or_digit u" if u: "u \<in> set (toLowerCase s)" for u
  proof
    assume a: "is_ascii_letter_or_digit u"
    then have "uint u \<le> 122"
      by (auto simp: is_ascii_letter_or_digit_def)
    then obtain v where v: "v \<in> set s" "uint v = uint u \<or> lowers_into_ascii v"
      using toLowerCase_unit_cases [OF u] by blast
    have "lowers_into_ascii v"
      using v(2) a by (auto simp: is_ascii_letter_or_digit_def lowers_into_ascii_def)
    then show False
      using assms v(1) by blast
  qed
  then show ?thesis
    by (simp add: normalize_spec_def filter_empty_conv)
qed

text \<open>
  Claim C6. \<open>evaluateGuess\<close> normalises guess and answer by lower-casing and removing
  every character that is not an ASCII letter or digit; it reports \<open>correct\<close> exactly when
  the two normalised strings are equal and the normalised guess is not empty. A guess is
  never correct when none of its code units has an ASCII letter or digit in its
  lower-case form, that is, when it has no ASCII letter or digit, no U+212A and no
  U+0130: the empty guess and every guess of punctuation and white space are such.
\<close>

theorem evaluateGuess_correct_iff:
  "normalizedGuess (evaluateGuess guess ans) = normalize_spec guess
   \<and> normalizedAnswer (evaluateGuess guess ans) = normalize_spec ans
   \<and> (correct (evaluateGuess guess ans) \<longleftrightarrow>
        normalize_spec guess = normalize_spec ans \<and> normalize_spec guess \<noteq> [])
   \<and> ((\<forall>u\<in>set guess. \<not> lowers_into_ascii u) \<longrightarrow>
        \<not> correct (evaluateGuess guess ans))"
proof -
  have a: "normalizedGuess (evaluateGuess guess ans) = normalize_spec guess"
    by (simp add: evaluateGuess_def Let_def normalizeText_spec)
  have b: "normalizedAnswer (evaluateGuess guess ans) = normalize_spec ans"
    by (simp add: evaluateGuess_def Let_def normalizeText_spec)
  have c: "correct (evaluateGuess guess ans) \<longleftrightarrow>
        normalize_spec guess = normalize_spec ans \<and> normalize_spec guess \<noteq> []"
    by (auto simp: evaluateGuess_def Let_def normalizeText_spec)
  have d: "\<not> correct (evaluateGuess guess ans)"
    if "\<forall>u\<in>set guess. \<not> lowers_into_ascii u"
    using c normalize_spec_no_source [OF that] by simp
  show ?thesis
    using a b c d by blast
qed

theorem evaluateGuess_correct_iff_witness:
  "correct (evaluateGuess (utf16 ''Karma!'') (utf16 ''karma''))
   \<and> correct (evaluateGuess (utf16 ''  k a r m a  '') (utf16 ''karma''))
   \<and> correct (evaluateGuess [8490] (utf16 ''k''))
   \<and> list_all (\<lambda>u. \<not> lowers_into_ascii u) (utf16 ''?! ...'')
   \<and> \<not> correct (evaluateGuess (utf16 ''?! ...'') (utf16 ''karma''))
   \<and> \<not> correct (evaluateGuess [] (utf16 ''karma''))"
proof -
  have n1: "normalize_spec (utf16 ''Karma!'') = utf16 ''karma''"
    by code_simp
  have n2: "normalize_spec (utf16 ''  k a r m a  '') = utf16 ''karma''"
    by code_simp
  have n3: "normalize_spec (utf16 ''karma'') = utf16 ''karma''"
    by code_simp
  have n4: "normalize_spec [8490] = utf16 ''k''" "normalize_spec (utf16 ''k'') = utf16 ''k''"
    by code_simp+
  have ne: "utf16 ''karma'' \<noteq> []" "utf16 ''k'' \<noteq> []"
    by (simp_all add: utf16_def)
  have p: "\<forall>u\<in>set (utf16 ''?! ...''). \<not> lowers_into_ascii u"
    by code_simp
  have a: "correct (evaluateGuess (utf16 ''Karma!'') (utf16 ''karma''))"
    using evaluateGuess_correct_iff [of "utf16 ''Karma!''" "utf16 ''karma''"] n1 n3 ne by simp
  have b: "correct (evaluateGuess (utf16 ''  k a r m a  '') (utf16 ''karma''))"
    using evaluateGuess_correct_iff [of "utf16 ''  k a r m a  ''" "utf16 ''karma''"] n2 n3 ne
    by simp
  have k: "correct (evaluateGuess [8490] (utf16 ''k''))"
    using evaluateGuess_correct_iff [of "[8490]" "utf16 ''k''"] n4 ne by simp
  have c: "\<not> correct (evaluateGuess (utf16 ''?! ...'') (utf16 ''karma''))"
    using evaluateGuess_correct_iff [of "utf16 ''?! ...''" "utf16 ''karma''"] p by blast
  have q: "\<forall>u\<in>set []. \<not> lowers_into_ascii u"
    by simp
  have d: "\<not> correct (evaluateGuess [] (utf16 ''karma''))"
    using evaluateGuess_correct_iff [of "[]" "utf16 ''karma''"] q by blast
  show ?thesis
    using a b k c d p by (simp add: list_all_iff)
qed

subsection \<open>Clue validator\<close>

lemma has_blocked_term_iff:
  "has_blocked_term lower ts \<longleftrightarrow> (\<exists>b \<in> set ts. sublist b lower)"
  by (induction ts) (auto simp: js_includes_def)

lemma has_forbidden_word_iff:
  "has_forbidden_word nr ws \<longleftrightarrow>
     (\<exists>w \<in> set ws. normalizeText w \<noteq> [] \<and> sublist (normalizeText w) nr)"
  by (induction ws) (auto simp: js_includes_def Let_def)

text \<open>
  Claim C7 states the five rules in order, rule 4 being: the normalised text contains the
  normalised form of any forbidden word. A forbidden word without letters or digits has
  the empty normalised form, which every text contains; the code skips such a word, and
  the clue below is valid although rule 4 as stated rejects it.
\<close>

theorem validateCommunityClue_empty_forbidden_word:
  "valid (validateCommunityClue (utf16 ''a valid clue here'')
            \<lparr>forbiddenWords = Some [utf16 ''!!!''], existingClues = None\<rparr>)
   \<and> validate_spec (utf16 ''a valid clue here'') [utf16 ''!!!''] []
       = \<lparr>valid = False, reason = ''Clue cannot contain the answer.''\<rparr>"
  by code_simp

text \<open>
  Claim C7, amended. For every clue text and options, \<open>validateCommunityClue\<close> applies
  its rules in this order, the first failure winning: (1) trimmed length below 8;
  (2) trimmed length above 180; (3) the lower-cased text contains a blocked link
  substring; (4) the normalised text contains the non-empty normalised form of a
  forbidden word; (5) the normalised text equals the normalised form of an existing clue;
  otherwise the verdict is valid.
\<close>

theorem validateCommunityClue_rule_order:
  "validateCommunityClue clueText options =
     validate_amended clueText
       (case forbiddenWords options of Some ws \<Rightarrow> ws | None \<Rightarrow> [])
       (case existingClues options of Some cs \<Rightarrow> cs | None \<Rightarrow> [])"
  unfolding validateCommunityClue_def validate_amended_def Let_def
    has_blocked_term_iff has_forbidden_word_iff list_ex_iff
  by simp

theorem validateCommunityClue_rule_order_witness:
  "validateCommunityClue (utf16 ''see https://karma.example'')
      \<lparr>forbiddenWords = Some [utf16 ''karma''],
       existingClues = Some [utf16 ''See HTTPS karma example'']\<rparr>
     = \<lparr>valid = False, reason = ''Links are not allowed in clues.''\<rparr>
   \<and> validate_amended (utf16 ''see https://karma.example'') [utf16 ''karma'']
        [utf16 ''See HTTPS karma example'']
     = \<lparr>valid = False, reason = ''Links are not allowed in clues.''\<rparr>"
proof -
  have "validate_amended (utf16 ''see https://karma.example'') [utf16 ''karma'']
        [utf16 ''See HTTPS karma example'']
     = \<lparr>valid = False, reason = ''Links are not allowed in clues.''\<rparr>"
    by code_simp
  then show ?thesis
    using validateCommunityClue_rule_order [of "utf16 ''see https://karma.example''"
      "\<lparr>forbiddenWords = Some [utf16 ''karma''],
        existingClues = Some [utf16 ''See HTTPS karma example'']\<rparr>"]
    by simp
qed

subsection \<open>Clue ranker\<close>

lemma slice0_nonneg: "0 \<le> e \<Longrightarrow> slice0 xs e = take (nat e) xs"
  by (auto simp: slice0_def Let_def min_def)

lemma mset_insert_by: "mset (insert_by cmp x ys) = add_mset x (mset ys)"
  by (induction ys) simp_all

lemma mset_js_sort: "mset (js_sort cmp xs) = mset xs"
  by (induction xs) (simp_all add: js_sort_def mset_insert_by)

lemma set_js_sort: "set (js_sort cmp xs) = set xs"
  by (rule mset_eq_setD) (rule mset_js_sort)

lemma compareClues_le0:
  assumes "createdAt a \<noteq> Date_object Invalid_Date"
    and "createdAt b \<noteq> Date_object Invalid_Date"
  shows "sort_compare (compareClues a b) \<le> 0 \<longleftrightarrow> desc_key a \<le> desc_key b"
  using assms
  by (auto simp: compareClues_def sort_compare_def desc_key_def created_time_def
        date_or_zero_def getTime_def Let_def less_eq_prod_def
      split: created_at.splits date.splits)

lemma insert_by_compareClues:
  assumes "createdAt x \<noteq> Date_object Invalid_Date"
    and "\<forall>y \<in> set ys. createdAt y \<noteq> Date_object Invalid_Date"
  shows "insert_by compareClues x ys = insort_key desc_key x ys"
  using assms by (induction ys) (simp_all add: compareClues_le0)

lemma js_sort_compareClues:
  assumes "\<forall>c \<in> set xs. createdAt c \<noteq> Date_object Invalid_Date"
  shows "js_sort compareClues xs = sort_key desc_key xs"
  using assms
proof (induction xs)
  case Nil
  then show ?case by (simp add: js_sort_def)
next
  case (Cons x xs)
  have s: "js_sort compareClues xs = sort_key desc_key xs"
    using Cons by simp
  have "js_sort compareClues (x # xs) = insert_by compareClues x (sort_key desc_key xs)"
    using s by (simp add: js_sort_def)
  also have "\<dots> = insort_key desc_key x (sort_key desc_key xs)"
    using Cons.prems by (intro insert_by_compareClues) simp_all
  finally show ?case by simp
qed

lemma desc_key_le: "desc_key a \<le> desc_key b \<longleftrightarrow> ranks_before_or_ties a b"
  by (auto simp: desc_key_def ranks_before_or_ties_def less_eq_prod_def)

lemma desc_key_eq: "desc_key a = desc_key b \<longleftrightarrow> rank_key a = rank_key b"
  by (auto simp: desc_key_def rank_key_def)

lemma sorted_desc_key: "sorted (map desc_key xs) \<longleftrightarrow> sorted_wrt ranks_before_or_ties xs"
  by (simp add: sorted_wrt_map desc_key_le)

lemma sorted_js_sort:
  assumes "\<forall>c \<in> set xs. createdAt c \<noteq> Date_object Invalid_Date"
  shows "sorted_wrt ranks_before_or_ties (js_sort compareClues xs)"
  using sorted_sort_key [of desc_key xs]
  by (simp only: js_sort_compareClues [OF assms] sorted_desc_key)

lemma stable_js_sort:
  assumes "\<forall>c \<in> set xs. createdAt c \<noteq> Date_object Invalid_Date"
  shows "filter (\<lambda>c. rank_key c = k) (js_sort compareClues xs)
           = filter (\<lambda>c. rank_key c = k) xs"
proof (cases "\<exists>c. rank_key c = k")
  case True
  then obtain c where c: "rank_key c = k" by blast
  have "filter (\<lambda>y. desc_key y = desc_key c) (sort_key desc_key xs)
          = filter (\<lambda>y. desc_key y = desc_key c) xs"
    by (rule sort_key_stable)
  then show ?thesis
    by (simp add: js_sort_compareClues [OF assms] desc_key_eq c)
next
  case False
  then show ?thesis by simp
qed

lemma js_sort_unique:
  assumes "\<forall>c \<in> set xs. createdAt c \<noteq> Date_object Invalid_Date"
    and "mset ys = mset xs"
    and "sorted_wrt ranks_before_or_ties ys"
    and "\<And>k. filter (\<lambda>c. rank_key c = k) ys = filter (\<lambda>c. rank_key c = k) xs"
  shows "ys = js_sort compareClues xs"
proof -
  have "sort_key desc_key xs = ys"
  proof (rule properties_for_sort_key)
    show "mset ys = mset xs" by (rule assms(2))
    show "sorted (map desc_key ys)" using assms(3) by (simp only: sorted_desc_key)
    show "filter (\<lambda>x. desc_key k = desc_key x) ys = filter (\<lambda>x. desc_key k = desc_key x) xs"
      if "k \<in> set ys" for k
      using assms(4) [of "rank_key k"] by (simp add: desc_key_eq eq_commute)
  qed
  then show ?thesis by (simp add: js_sort_compareClues [OF assms(1)])
qed

lemma rankCommunityClues_nonneg:
  "0 \<le> limit \<Longrightarrow>
   rankCommunityClues clues limit = take (nat limit) (js_sort compareClues (revalidated clues))"
  by (simp add: rankCommunityClues_def revalidated_def slice0_nonneg)

lemma sorted_wrt_take: "sorted_wrt P xs \<Longrightarrow> sorted_wrt P (take n xs)"
  by (metis append_take_drop_id sorted_wrt_append)

lemma valid_no_options:
  "valid (validateCommunityClue t no_options) \<longleftrightarrow> passes_length_and_link_rules t"
  unfolding validateCommunityClue_def Let_def has_blocked_term_iff
  by (auto simp: no_options_def passes_length_and_link_rules_def)

lemma revalidated_eq:
  "revalidated clues = filter (\<lambda>c. passes_length_and_link_rules (clue_text c)) clues"
  by (simp add: revalidated_def valid_no_options)

lemma rankCommunityClues_full_limit:
  "mset (rankCommunityClues clues (int (length clues)))
     = mset (filter (\<lambda>c. passes_length_and_link_rules (clue_text c)) clues)"
proof -
  have "length (js_sort compareClues (revalidated clues)) \<le> length clues"
    by (metis mset_js_sort size_mset revalidated_def length_filter_le)
  then show ?thesis
    by (simp add: rankCommunityClues_nonneg mset_js_sort revalidated_eq)
qed

text \<open>
  Claim C8 states, for every list of clues and every limit, that ties on the combined
  score are broken by the most recent \<^verbatim>\<open>createdAt\<close> first and that the result has at
  most \<open>limit\<close> elements. The comparator reads a \<^verbatim>\<open>createdAt\<close> that is not a \<^verbatim>\<open>Date\<close>
  object as time 0: two clues reloaded from storage with equal scores stay in input
  order, the older one first. And a negative limit reaches \<^verbatim>\<open>slice\<close> unchanged, where it
  counts from the end of the array: with limit \<open>- 1\<close> one of two valid clues is returned.
\<close>

theorem rankCommunityClues_stored_clues_and_negative_limit:
  "rankCommunityClues [example_stored_clue_1, example_stored_clue_2] 5
     = [example_stored_clue_1, example_stored_clue_2]
   \<and> upvotes example_stored_clue_1 + modBoost example_stored_clue_1 * 3
     = upvotes example_stored_clue_2 + modBoost example_stored_clue_2 * 3
   \<and> denoted_time (createdAt example_stored_clue_1)
     < denoted_time (createdAt example_stored_clue_2)
   \<and> rankCommunityClues [example_clue_1, example_clue_2] (- 1) = [example_clue_2]"
  by code_simp

text \<open>
  Claim C8, amended. For every list of clues none of which has an invalid \<^verbatim>\<open>Date\<close> as
  \<^verbatim>\<open>createdAt\<close>, and every limit that is not negative, \<open>rankCommunityClues\<close> returns the
  first \<open>limit\<close> elements of the stable sort of the clues that pass the validator again
  (called with no options): that sort is a permutation of those clues, descending in
  \<open>upvotes + modBoost * 3\<close>, ties broken by the later creation time first, where the
  creation time of a clue is the time of its \<^verbatim>\<open>createdAt\<close> when that is a \<^verbatim>\<open>Date\<close>
  object and 0 otherwise; clues with equal keys keep their input order, and the sort is
  the only list with these three properties. The result is sorted in the same way, has
  at most \<open>limit\<close> elements, and the default limit is 5.
\<close>

theorem rankCommunityClues_sorted_truncated:
  assumes "0 \<le> limit"
    and "\<forall>c \<in> set clues. createdAt c \<noteq> Date_object Invalid_Date"
  shows "rankCommunityClues clues limit
           = take (nat limit) (js_sort compareClues (revalidated clues))
         \<and> mset (js_sort compareClues (revalidated clues)) = mset (revalidated clues)
         \<and> sorted_wrt ranks_before_or_ties (js_sort compareClues (revalidated clues))
         \<and> (\<forall>k. filter (\<lambda>c. rank_key c = k) (js_sort compareClues (revalidated clues))
                  = filter (\<lambda>c. rank_key c = k) (revalidated clues))
         \<and> (\<forall>ys. mset ys = mset (revalidated clues)
                  \<and> sorted_wrt ranks_before_or_ties ys
                  \<and> (\<forall>k. filter (\<lambda>c. rank_key c = k) ys
                           = filter (\<lambda>c. rank_key c = k) (revalidated clues))
                \<longrightarrow> ys = js_sort compareClues (revalidated clues))
         \<and> sorted_wrt ranks_before_or_ties (rankCommunityClues clues limit)
         \<and> set (rankCommunityClues clues limit) \<subseteq> set (revalidated clues)
         \<and> int (length (rankCommunityClues clues limit)) \<le> limit
         \<and> rankCommunityClues_default clues = rankCommunityClues clues 5"
proof -
  let ?sorted = "js_sort compareClues (revalidated clues)"
  have v: "\<forall>c \<in> set (revalidated clues). createdAt c \<noteq> Date_object Invalid_Date"
    using assms(2) by (simp add: revalidated_def)
  have r: "rankCommunityClues clues limit = take (nat limit) ?sorted"
    using assms(1) by (rule rankCommunityClues_nonneg)
  have u: "\<forall>ys. mset ys = mset (revalidated clues)
                  \<and> sorted_wrt ranks_before_or_ties ys
                  \<and> (\<forall>k. filter (\<lambda>c. rank_key c = k) ys
                           = filter (\<lambda>c. rank_key c = k) (revalidated clues))
                \<longrightarrow> ys = ?sorted"
    using js_sort_unique [OF v] by blast
  have s: "sorted_wrt ranks_before_or_ties (rankCommunityClues clues limit)"
    unfolding r by (rule sorted_wrt_take) (rule sorted_js_sort [OF v])
  have "set (take (nat limit) ?sorted) \<subseteq> set ?sorted"
    by (rule set_take_subset)
  also have "set ?sorted = set (revalidated clues)"
    by (rule set_js_sort)
  finally have sub: "set (rankCommunityClues clues limit) \<subseteq> set (revalidated clues)"
    unfolding r .
  have len: "int (length (rankCommunityClues clues limit)) \<le> limit"
    unfolding r using assms(1) by simp
  have dflt: "rankCommunityClues_default clues = rankCommunityClues clues 5"
    by (simp add: rankCommunityClues_default_def)
  show ?thesis
    using r mset_js_sort [of compareClues "revalidated clues"] sorted_js_sort [OF v]
      stable_js_sort [OF v] u s sub len dflt
    by blast
qed

theorem rankCommunityClues_sorted_truncated_witness:
  "(0::int) \<le> 1
   \<and> list_all (\<lambda>c. createdAt c \<noteq> Date_object Invalid_Date)
        [example_clue_3, example_clue_4, example_stored_clue_1]
   \<and> rankCommunityClues [example_clue_3, example_clue_4, example_stored_clue_1] 1
       = [example_clue_4]
   \<and> int (length (rankCommunityClues
                     [example_clue_3, example_clue_4, example_stored_clue_1] 1)) \<le> 1
   \<and> sorted_wrt ranks_before_or_ties
        (rankCommunityClues [example_clue_3, example_clue_4, example_stored_clue_1] 1)"
proof -
  have h: "(0::int) \<le> 1"
    by simp
  have d: "\<forall>c \<in> set [example_clue_3, example_clue_4, example_stored_clue_1].
             createdAt c \<noteq> Date_object Invalid_Date"
    by code_simp
  have v: "rankCommunityClues [example_clue_3, example_clue_4, example_stored_clue_1] 1
             = [example_clue_4]"
    by code_simp
  show ?thesis
    using h d v
      rankCommunityClues_sorted_truncated [OF h d]
    unfolding list_all_iff by blast
qed

text \<open>
  Claim C10. The ranker calls the validator with no forbidden words and no existing clues,
  so its filter is exactly the length and link rules: with a limit that does not truncate,
  the ranked clues are the input clues that pass these two rules, with their
  multiplicities. A clue that contains the day's answer is kept although the validator
  rejects it when given the answer, and two clues with the same normalised text are both
  kept although the validator rejects the second when given the first.
\<close>

theorem rankCommunityClues_length_and_link_only:
  "(valid (validateCommunityClue t no_options) \<longleftrightarrow> passes_length_and_link_rules t)
   \<and> mset (rankCommunityClues clues (int (length clues)))
       = mset (filter (\<lambda>c. passes_length_and_link_rules (clue_text c)) clues)
   \<and> validateCommunityClue (clue_text example_clue_1)
         \<lparr>forbiddenWords = Some [utf16 ''karma''], existingClues = None\<rparr>
       = \<lparr>valid = False, reason = ''Clue cannot contain the answer.''\<rparr>
   \<and> rankCommunityClues [example_clue_1] 5 = [example_clue_1]
   \<and> validateCommunityClue (clue_text example_clue_2)
         \<lparr>forbiddenWords = None, existingClues = Some [clue_text example_clue_1]\<rparr>
       = \<lparr>valid = False, reason = ''This clue already exists for today.''\<rparr>
   \<and> rankCommunityClues [example_clue_1, example_clue_2] 5 = [example_clue_2, example_clue_1]"
proof -
  have a: "validateCommunityClue (clue_text example_clue_1)
         \<lparr>forbiddenWords = Some [utf16 ''karma''], existingClues = None\<rparr>
       = \<lparr>valid = False, reason = ''Clue cannot contain the answer.''\<rparr>"
    by code_simp
  have b: "rankCommunityClues [example_clue_1] 5 = [example_clue_1]"
    by code_simp
  have c: "validateCommunityClue (clue_text example_clue_2)
         \<lparr>forbiddenWords = None, existingClues = Some [clue_text example_clue_1]\<rparr>
       = \<lparr>valid = False, reason = ''This clue already exists for today.''\<rparr>"
    by code_simp
  have d: "rankCommunityClues [example_clue_1, example_clue_2] 5
             = [example_clue_2, example_clue_1]"
    by code_simp
  show ?thesis
    using valid_no_options rankCommunityClues_full_limit a b c d by blast
qed

theorem rankCommunityClues_length_and_link_only_witness:
  "passes_length_and_link_rules (clue_text example_clue_1)
   \<and> valid (validateCommunityClue (clue_text example_clue_1) no_options)
   \<and> mset (rankCommunityClues [example_clue_1, example_clue_2] 2)
       = mset [example_clue_1, example_clue_2]"
proof -
  have p: "passes_length_and_link_rules (clue_text example_clue_1)"
    by code_simp
  have q: "passes_length_and_link_rules (clue_text example_clue_2)"
    by code_simp
  have "mset (rankCommunityClues [example_clue_1, example_clue_2]
                (int (length [example_clue_1, example_clue_2])))
          = mset (filter (\<lambda>c. passes_length_and_link_rules (clue_text c))
                    [example_clue_1, example_clue_2])"
    using rankCommunityClues_length_and_link_only
            [of "clue_text example_clue_1" "[example_clue_1, example_clue_2]"]
    by blast
  then have m: "mset (rankCommunityClues [example_clue_1, example_clue_2] 2)
                  = mset [example_clue_1, example_clue_2]"
    using p q by simp
  show ?thesis
    using p m rankCommunityClues_length_and_link_only
            [of "clue_text example_clue_1" "[example_clue_1, example_clue_2]"]
    by blast
qed

subsection \<open>Session state\<close>

text \<open>The three rejections of \<open>submitGuess\<close>, in the order of the code.\<close>

lemma submitGuess_completed:
  assumes "currentGame st = Some game" and "completed (playerState game)"
  shows "submitGuess now1 now2 now3 guess st = (False, st)"
  using assms by (simp add: submitGuess_def Let_def)

lemma submitGuess_exhausted:
  assumes "currentGame st = Some game" and "\<not> completed (playerState game)"
    and "6 \<le> length (guesses (playerState game))"
  shows "submitGuess now1 now2 now3 guess st
           = (False, st\<lparr>error := Some ''No guesses remaining for today.''\<rparr>)"
  using assms by (simp add: submitGuess_def Let_def MAX_GUESSES_def)

lemma submitGuess_duplicate:
  assumes "currentGame st = Some game" and "\<not> completed (playerState game)"
    and "\<not> 6 \<le> length (guesses (playerState game))"
    and "\<exists>item \<in> set (guesses (playerState game)).
           normalizeText (guess_text item) = normalizeText guess"
  shows "submitGuess now1 now2 now3 guess st
           = (False, st\<lparr>error := Some ''You already tried that guess.''\<rparr>)"
  using assms
  by (simp add: submitGuess_def Let_def MAX_GUESSES_def list_ex_iff normalizeText_def)

text \<open>
  Claim C9. When the day is already completed, or 6 guesses have been used, or the guess
  repeats a prior guess, \<open>submitGuess\<close> is to return \<open>false\<close>, leave the player's day state
  unchanged and report an error that says why. The second and the third rejection do so
  (\<open>submitGuess_exhausted\<close>, \<open>submitGuess_duplicate\<close>). The first does not: the guard for
  the completed day returns before any error is set. On the session after the correct
  guess \<^verbatim>\<open>Wholesome\<close>, whose error is cleared, the guess \<^verbatim>\<open>chaos\<close> returns \<open>false\<close> and
  leaves the session as it is, so that no error is reported.
\<close>

theorem submitGuess_completed_reports_nothing:
  "submitGuess 1770163245000 1770163245000 1770163245000 (utf16 ''Wholesome'')
       example_fresh_session
     = (True, example_solved_session)
   \<and> submitGuess 1770163300000 1770163300000 1770163300000 (utf16 ''chaos'')
       example_solved_session
     = (False, example_solved_session)
   \<and> error example_solved_session = None
   \<and> submitGuess 1770163300000 1770163300000 1770163300000 (utf16 ''CHAOS!'')
       example_missed_session
     = (False, example_missed_session\<lparr>error := Some ''You already tried that guess.''\<rparr>)"
  by code_simp

end
